theory Spec2Isabelle
  imports Main "HOL-Library.Sublist"
begin

section \<open>JavaScript strings\<close>

text \<open>
  Strings are lists of characters. The model covers ASCII text: \<open>toLowerCase\<close> maps
  \<open>A\<close>..\<open>Z\<close> to \<open>a\<close>..\<open>z\<close> and leaves every other character as it is, \<open>trim\<close>
  removes the ASCII white space (TAB, LF, VT, FF, CR, SPACE) at both ends, and \<open>length\<close>
  counts characters.
\<close>

definition toLowerChar :: "char \<Rightarrow> char" where
  "toLowerChar c =
     (let n = (of_char c :: nat) in if 65 \<le> n \<and> n \<le> 90 then char_of (n + 32) else c)"

definition toLowerCase :: "string \<Rightarrow> string" where
  "toLowerCase s = map toLowerChar s"

definition isWhiteSpace :: "char \<Rightarrow> bool" where
  "isWhiteSpace c = (let n = (of_char c :: nat) in (9 \<le> n \<and> n \<le> 13) \<or> n = 32)"

definition trim :: "string \<Rightarrow> string" where
  "trim s = rev (dropWhile isWhiteSpace (rev (dropWhile isWhiteSpace s)))"

text \<open>\<open>s.replace(pat, rep)\<close> with a string pattern: only the first occurrence is replaced.\<close>

fun replace :: "string \<Rightarrow> string \<Rightarrow> string \<Rightarrow> string" where
  "replace pat rep [] = (if pat = [] then rep else [])"
| "replace pat rep (c # cs) =
     (if prefix pat (c # cs) then rep @ drop (length pat) (c # cs)
      else c # replace pat rep cs)"

text \<open>\<open>s.split(sep)\<close> with a one-character separator.\<close>

fun split :: "char \<Rightarrow> string \<Rightarrow> string list" where
  "split sep [] = [[]]"
| "split sep (c # cs) =
     (if c = sep then [] # split sep cs
      else (case split sep cs of
              [] \<Rightarrow> [[c]]
            | p # ps \<Rightarrow> (c # p) # ps))"

section \<open>Exceptions\<close>

datatype exn =
    StoreUnavailable
  | ValidationError string
  | DuplicateKey string
  | JsonWebTokenError string
  | TokenExpiredError
  | TypeError string
  | IllegalArguments string

fun message_of :: "exn \<Rightarrow> string" where
  "message_of StoreUnavailable = ''Operation buffering timed out''"
| "message_of (ValidationError path) = ''User validation failed: '' @ path"
| "message_of (DuplicateKey key) = ''E11000 duplicate key error: '' @ key"
| "message_of (JsonWebTokenError m) = m"
| "message_of TokenExpiredError = ''jwt expired''"
| "message_of (TypeError m) = m"
| "message_of (IllegalArguments types) = ''Illegal arguments: '' @ types"

section \<open>JavaScript values\<close>

text \<open>
  The values a field of the parsed JSON body can hold, and \<open>undefined\<close> for a field that is
  absent. A number is an integer here: of a number the handlers observe only whether it
  is zero. Of an object they observe only that it is truthy, that it is not a string,
  and the outcome of the test \<open>.length < 6\<close>, which the object carries (the conversion of
  an arbitrary \<open>length\<close> property to a number is floating-point arithmetic).
\<close>

datatype jsvalue =
    JSUndefined
  | JSNull
  | JSBoolean bool
  | JSNumber int
  | JSString string
  | JSArray "jsvalue list"
  | JSObject bool

fun typeof :: "jsvalue \<Rightarrow> string" where
  "typeof JSUndefined = ''undefined''"
| "typeof JSNull = ''object''"
| "typeof (JSBoolean b) = ''boolean''"
| "typeof (JSNumber n) = ''number''"
| "typeof (JSString s) = ''string''"
| "typeof (JSArray xs) = ''object''"
| "typeof (JSObject b) = ''object''"

text \<open>\<open>!v\<close>\<close>

fun falsy :: "jsvalue \<Rightarrow> bool" where
  "falsy JSUndefined = True"
| "falsy JSNull = True"
| "falsy (JSBoolean b) = (b = False)"
| "falsy (JSNumber n) = (n = 0)"
| "falsy (JSString s) = (s = [])"
| "falsy (JSArray xs) = False"
| "falsy (JSObject b) = False"

text \<open>
  \<open>v.length < 6\<close> for a truthy \<open>v\<close>: a number and a boolean have no \<open>length\<close>, and
  \<open>undefined < 6\<close> is false. (The property of \<open>null\<close> or \<open>undefined\<close> is never read: they
  are falsy.)
\<close>

fun lengthBelow6 :: "jsvalue \<Rightarrow> bool" where
  "lengthBelow6 (JSString s) = (length s < 6)"
| "lengthBelow6 (JSArray xs) = (length xs < 6)"
| "lengthBelow6 (JSObject b) = b"
| "lengthBelow6 v = False"

text \<open>The characters of a string value; a value that is not a string has none here.\<close>

fun str :: "jsvalue \<Rightarrow> string" where
  "str (JSString s) = s"
| "str v = []"

text \<open>A string that may be absent, such as a request header or an environment variable.\<close>

definition js :: "string option \<Rightarrow> jsvalue" where
  "js v = (case v of None \<Rightarrow> JSUndefined | Some s \<Rightarrow> JSString s)"

text \<open>
  \<open>v.toLowerCase().trim()\<close>: only a string has the method; a value of a JSON body has no
  function for a property.
\<close>

definition toLowerCase_trim :: "jsvalue \<Rightarrow> exn + string" where
  "toLowerCase_trim v =
     (case v of
        JSString s \<Rightarrow> Inr (trim (toLowerCase s))
      | _ \<Rightarrow> Inl (TypeError ''email.toLowerCase is not a function''))"

section \<open>Text encodings used by the token and hash libraries\<close>

text \<open>
  The libraries \<open>jsonwebtoken\<close> and \<open>bcryptjs\<close> are not part of the repository. They are
  modelled symbolically: their outputs are strings over the URL-safe alphabet, built
  from hexadecimal encodings of their inputs, and the digests are ideal: two inputs
  share a digest only where the libraries say so (bcrypt reads 72 characters of the
  password, HMAC pads a short key with zero bytes).
\<close>

definition hexChars :: string where
  "hexChars = ''0123456789abcdef''"

definition hexDigit :: "nat \<Rightarrow> char" where
  "hexDigit n = hexChars ! (n mod 16)"

fun indexOf :: "string \<Rightarrow> char \<Rightarrow> nat option" where
  "indexOf [] c = None"
| "indexOf (x # xs) c = (if x = c then Some 0 else map_option Suc (indexOf xs c))"

definition hexValue :: "char \<Rightarrow> nat option" where
  "hexValue c = indexOf hexChars c"

definition hexEncodeChar :: "char \<Rightarrow> string" where
  "hexEncodeChar c = [hexDigit ((of_char c :: nat) div 16), hexDigit ((of_char c :: nat) mod 16)]"

definition hexEncode :: "string \<Rightarrow> string" where
  "hexEncode s = concat (map hexEncodeChar s)"

fun hexDecode :: "string \<Rightarrow> string option" where
  "hexDecode [] = Some []"
| "hexDecode [a] = None"
| "hexDecode (a # b # cs) =
     (case (hexValue a, hexValue b, hexDecode cs) of
        (Some x, Some y, Some s) \<Rightarrow> Some (char_of (16 * x + y) # s)
      | _ \<Rightarrow> None)"

function natToHex :: "nat \<Rightarrow> string" where
  "natToHex n = (if n < 16 then [hexDigit n] else natToHex (n div 16) @ [hexDigit (n mod 16)])"
  by pat_completeness auto
termination
  by (relation "measure id") auto

fun hexToNat :: "nat \<Rightarrow> string \<Rightarrow> nat option" where
  "hexToNat acc [] = Some acc"
| "hexToNat acc (c # cs) =
     (case hexValue c of None \<Rightarrow> None | Some d \<Rightarrow> hexToNat (16 * acc + d) cs)"

definition parseNat :: "string \<Rightarrow> nat option" where
  "parseNat s = (if s = [] then None else hexToNat 0 s)"

definition isBase64UrlChar :: "char \<Rightarrow> bool" where
  "isBase64UrlChar c =
     (let n = (of_char c :: nat) in
      (48 \<le> n \<and> n \<le> 57) \<or> (65 \<le> n \<and> n \<le> 90) \<or> (97 \<le> n \<and> n \<le> 122) \<or> n = 45 \<or> n = 95)"

definition isTokenSegment :: "string \<Rightarrow> bool" where
  "isTokenSegment s = (s \<noteq> [] \<and> list_all isBase64UrlChar s)"

section \<open>JSON values and responses\<close>

text \<open>
  JSON values as \<open>res.json\<close> sends them. An \<open>ObjectId\<close> is a number here, and a date is
  the number of milliseconds since the epoch.
\<close>

datatype json = JBool bool | JNum nat | JStr string | JObj "(string \<times> json) list"

fun field :: "json \<Rightarrow> string \<Rightarrow> json option" where
  "field (JObj kvs) k = map_of kvs k"
| "field _ k = None"

record response =
  status :: nat
  body :: json

definition json_response :: "nat \<Rightarrow> (string \<times> json) list \<Rightarrow> response" where
  "json_response code kvs = \<lparr>status = code, body = JObj kvs\<rparr>"

section \<open>bcryptjs\<close>

text \<open>
  \<open>bcrypt.hash(password, 10)\<close> draws a random salt, which is an input here, and reads at
  most the first 72 characters of the password. \<open>bcrypt.compare\<close> recomputes the digest
  with the salt stored in the hash; a malformed hash compares false. Both reject an
  argument that is not a string with \<open>Illegal arguments\<close> and the types they were given.
\<close>

definition bcrypt_digest :: "string \<Rightarrow> string \<Rightarrow> string" where
  "bcrypt_digest saltSegment password = hexEncode (saltSegment @ take 72 password)"

definition bcrypt_hash :: "string \<Rightarrow> string \<Rightarrow> string" where
  "bcrypt_hash salt password =
     (let saltSegment = hexEncode salt in saltSegment @ ''$'' @ bcrypt_digest saltSegment password)"

definition bcrypt_compare :: "string \<Rightarrow> string \<Rightarrow> bool" where
  "bcrypt_compare password hash =
     (case split (CHR ''$'') hash of
        [saltSegment, digest] \<Rightarrow> digest = bcrypt_digest saltSegment password
      | _ \<Rightarrow> False)"

definition bcrypt_hash_js :: "string \<Rightarrow> jsvalue \<Rightarrow> exn + string" where
  "bcrypt_hash_js salt s =
     (case s of
        JSString password \<Rightarrow> Inr (bcrypt_hash salt password)
      | _ \<Rightarrow> Inl (IllegalArguments (typeof s @ '', number'')))"

definition bcrypt_compare_js :: "jsvalue \<Rightarrow> string \<Rightarrow> exn + bool" where
  "bcrypt_compare_js s hash =
     (case s of
        JSString password \<Rightarrow> Inr (bcrypt_compare password hash)
      | _ \<Rightarrow> Inl (IllegalArguments (typeof s @ '', string'')))"

section \<open>jsonwebtoken\<close>

text \<open>
  A token is \<open>header.payload.signature\<close>. \<open>jwt.sign(payload, secret, {expiresIn: '7d'})\<close>
  adds \<open>iat\<close>, the clock in whole seconds, and \<open>exp = iat + 604800\<close>. \<open>jwt.verify\<close>
  throws on a malformed token, on a signature that is not the one its secret gives for
  the header and payload, and once the clock has reached \<open>exp\<close>. The signature is
  HMAC-SHA256: a key of at most 64 bytes is padded with zero bytes to the block size,
  so a secret and the same secret followed by zero bytes sign alike; a longer key is
  hashed first, which is ideal here (the key stands for its hash).
\<close>

record claims =
  claim_id :: nat
  claim_email :: string
  iat :: nat
  exp :: nat

definition jwt_header :: string where
  "jwt_header = hexEncode ''HS256''"

definition keyBlock :: "string \<Rightarrow> string" where
  "keyBlock secret =
     (if length secret \<le> 64 then secret @ replicate (64 - length secret) (CHR 0x00)
      else secret)"

definition hmac :: "string \<Rightarrow> string \<Rightarrow> string" where
  "hmac secret signingInput = hexEncode (keyBlock secret) @ ''_'' @ hexEncode signingInput"

definition encodeClaims :: "claims \<Rightarrow> string" where
  "encodeClaims c =
     natToHex (claim_id c) @ ''-'' @ hexEncode (claim_email c) @ ''-'' @
     natToHex (iat c) @ ''-'' @ natToHex (exp c)"

definition decodeClaims :: "string \<Rightarrow> claims option" where
  "decodeClaims p =
     (case split (CHR ''-'') p of
        [a, b, c, d] \<Rightarrow>
          (case (parseNat a, hexDecode b, parseNat c, parseNat d) of
             (Some i, Some e, Some t1, Some t2) \<Rightarrow>
               Some \<lparr>claim_id = i, claim_email = e, iat = t1, exp = t2\<rparr>
           | _ \<Rightarrow> None)
      | _ \<Rightarrow> None)"

definition sevenDays :: nat where
  "sevenDays = 7 * 24 * 60 * 60"

definition jwt_sign :: "nat \<Rightarrow> string \<Rightarrow> string \<Rightarrow> nat \<Rightarrow> string" where
  "jwt_sign userId userEmail secret nowMs =
     (let timestamp = nowMs div 1000;
          payload = \<lparr>claim_id = userId, claim_email = userEmail,
                     iat = timestamp, exp = timestamp + sevenDays\<rparr>;
          signingInput = jwt_header @ ''.'' @ encodeClaims payload
      in signingInput @ ''.'' @ hmac secret signingInput)"

definition jwt_verify :: "string \<Rightarrow> string \<Rightarrow> nat \<Rightarrow> exn + claims" where
  "jwt_verify token secret nowMs =
     (case split (CHR ''.'') token of
        [h, p, s] \<Rightarrow>
          if \<not> (isTokenSegment h \<and> isTokenSegment p \<and> isTokenSegment s)
          then Inl (JsonWebTokenError ''jwt malformed'')
          else (case decodeClaims p of
                  None \<Rightarrow> Inl (JsonWebTokenError ''invalid token'')
                | Some payload \<Rightarrow>
                    if h \<noteq> jwt_header then Inl (JsonWebTokenError ''invalid algorithm'')
                    else if s \<noteq> hmac secret (h @ ''.'' @ p)
                    then Inl (JsonWebTokenError ''invalid signature'')
                    else if exp payload \<le> nowMs div 1000 then Inl TokenExpiredError
                    else Inr payload)
      | _ \<Rightarrow> Inl (JsonWebTokenError ''jwt malformed''))"

section \<open>The user collection (mongoose)\<close>

text \<open>
  The collection is the list of its documents in insertion order, together with the
  connection's \<open>readyState\<close> (1 is connected). An operation on a connection that is not
  ready throws. A schema's setters on the \<open>email\<close> path apply to the documents built
  with \<open>new User\<close> and to the filters of queries. \<open>save\<close> runs the \<open>required\<close>
  validators of the schema in server.js, then inserts under the unique index on
  \<open>email\<close>. A fresh \<open>ObjectId\<close> differs from every \<open>_id\<close> of the collection.
\<close>

record user =
  oid :: nat
  email :: string
  password :: string
  createdAt :: nat

record world =
  users :: "user list"
  readyState :: nat

record env =
  now :: nat
  salt :: string

definition findOne :: "(string \<Rightarrow> string) \<Rightarrow> world \<Rightarrow> string \<Rightarrow> exn + user option" where
  "findOne setters w e =
     (if readyState w \<noteq> 1 then Inl StoreUnavailable
      else Inr (find (\<lambda>u. email u = setters e) (users w)))"

definition findById :: "world \<Rightarrow> nat \<Rightarrow> exn + user option" where
  "findById w i =
     (if readyState w \<noteq> 1 then Inl StoreUnavailable
      else Inr (find (\<lambda>u. oid u = i) (users w)))"

definition newObjectId :: "user list \<Rightarrow> nat" where
  "newObjectId us = Suc (fold max (map oid us) 0)"

definition new_User :: "(string \<Rightarrow> string) \<Rightarrow> world \<Rightarrow> env \<Rightarrow> string \<Rightarrow> string \<Rightarrow> user" where
  "new_User setters w ev e p =
     \<lparr>oid = newObjectId (users w), email = setters e, password = p, createdAt = now ev\<rparr>"

definition insertOne :: "world \<Rightarrow> user \<Rightarrow> exn + world" where
  "insertOne w u =
     (if readyState w \<noteq> 1 then Inl StoreUnavailable
      else if find (\<lambda>v. email v = email u) (users w) \<noteq> None then Inl (DuplicateKey (email u))
      else Inr (w\<lparr>users := users w @ [u]\<rparr>))"

definition save :: "world \<Rightarrow> user \<Rightarrow> exn + world" where
  "save w u =
     (if email u = [] then Inl (ValidationError ''email: Path `email` is required.'')
      else if password u = [] then Inl (ValidationError ''password: Path `password` is required.'')
      else insertOne w u)"

section \<open>Requests\<close>

text \<open>
  A request names the route it matches, carries the error of the JSON body parser if
  the body was malformed, the \<open>Authorization\<close> header as it was sent, and the two fields
  of the body the handlers read, each any JSON value or \<open>undefined\<close>.
\<close>

datatype endpoint = GET_health | POST_register | POST_login | GET_profile | Unmatched

record request =
  endpoint :: endpoint
  bodyError :: "string option"
  authorization :: "string option"
  body_email :: jsvalue
  body_password :: jsvalue

text \<open>
  The HTTP parser of Node hands a header's value to the program without the blanks
  (space, horizontal tab) before and after it.
\<close>

definition isBlank :: "char \<Rightarrow> bool" where
  "isBlank c = (c = CHR '' '' \<or> c = CHR 0x09)"

definition headerValue :: "string \<Rightarrow> string" where
  "headerValue raw = rev (dropWhile isBlank (rev (dropWhile isBlank raw)))"

definition header_authorization :: "request \<Rightarrow> string option" where
  "header_authorization req = map_option headerValue (authorization req)"

text \<open>The responses the handlers send.\<close>

definition failure :: "nat \<Rightarrow> string \<Rightarrow> response" where
  "failure code msg = json_response code [(''success'', JBool False), (''message'', JStr msg)]"

definition failure_with_error :: "nat \<Rightarrow> string \<Rightarrow> exn \<Rightarrow> response" where
  "failure_with_error code msg err =
     json_response code
       [(''success'', JBool False), (''message'', JStr msg), (''error'', JStr (message_of err))]"

definition user_data :: "user \<Rightarrow> json" where
  "user_data u =
     JObj [(''id'', JNum (oid u)), (''email'', JStr (email u)), (''createdAt'', JNum (createdAt u))]"

definition auth_success :: "nat \<Rightarrow> string \<Rightarrow> user \<Rightarrow> string \<Rightarrow> response" where
  "auth_success code msg u token =
     json_response code
       [(''success'', JBool True), (''message'', JStr msg),
        (''data'', JObj [(''user'', user_data u), (''token'', JStr token)])]"

definition without_password :: "user \<Rightarrow> json" where
  "without_password u =
     JObj [(''_id'', JNum (oid u)), (''email'', JStr (email u)),
           (''createdAt'', JNum (createdAt u)), (''__v'', JNum 0)]"

definition profile_success :: "user \<Rightarrow> response" where
  "profile_success u = json_response 200 [(''success'', JBool True), (''data'', without_password u)]"

section \<open>server.js\<close>

text \<open>The inline schema: \<open>lowercase: true, trim: true\<close> on \<open>email\<close>, no hooks.\<close>

definition server_emailSetters :: "string \<Rightarrow> string" where
  "server_emailSetters e = trim (toLowerCase e)"

definition server_JWT_SECRET :: string where
  "server_JWT_SECRET = ''splito-jwt-secret-key-2024''"

definition server_health :: "world \<Rightarrow> env \<Rightarrow> response" where
  "server_health w ev =
     json_response 200
       [(''status'', JStr ''OK''),
        (''message'', JStr ''Splito Backend is running''),
        (''timestamp'', JNum (now ev)),
        (''database'', JStr (if readyState w = 1 then ''connected'' else ''disconnected'')),
        (''endpoints'', JObj [(''register'', JStr ''POST /api/auth/register''),
                              (''login'', JStr ''POST /api/auth/login''),
                              (''health'', JStr ''GET /api/health'')])]"

text \<open>The body of the \<open>try\<close> block: \<open>Inl\<close> is a thrown exception.\<close>

definition server_register_try :: "world \<Rightarrow> env \<Rightarrow> request \<Rightarrow> exn + response \<times> world" where
  "server_register_try w ev req =
     (let email = body_email req; password = body_password req in
      if falsy email \<or> falsy password
      then Inr (failure 400 ''Email and password are required'', w)
      else if lengthBelow6 password
      then Inr (failure 400 ''Password must be at least 6 characters'', w)
      else (case toLowerCase_trim email of
              Inl err \<Rightarrow> Inl err
            | Inr normalized \<Rightarrow>
                (case findOne server_emailSetters w normalized of
                   Inl err \<Rightarrow> Inl err
                 | Inr (Some existingUser) \<Rightarrow>
                     Inr (failure 400 ''User already exists with this email'', w)
                 | Inr None \<Rightarrow>
                     (case bcrypt_hash_js (salt ev) password of
                        Inl err \<Rightarrow> Inl err
                      | Inr hashedPassword \<Rightarrow>
                          (let user = new_User server_emailSetters w ev normalized
                                        hashedPassword
                           in case save w user of
                                Inl err \<Rightarrow> Inl err
                              | Inr w' \<Rightarrow>
                                  (let token = jwt_sign (oid user) (user.email user)
                                                 server_JWT_SECRET (now ev)
                                   in Inr (auth_success 201 ''User registered successfully''
                                             user token, w')))))))"

definition server_register :: "world \<Rightarrow> env \<Rightarrow> request \<Rightarrow> response \<times> world" where
  "server_register w ev req =
     (case server_register_try w ev req of
        Inr r \<Rightarrow> r
      | Inl error \<Rightarrow> (failure_with_error 500 ''Server error during registration'' error, w))"

definition server_login_try :: "world \<Rightarrow> env \<Rightarrow> request \<Rightarrow> exn + response" where
  "server_login_try w ev req =
     (let email = body_email req; password = body_password req in
      if falsy email \<or> falsy password
      then Inr (failure 400 ''Email and password are required'')
      else (case toLowerCase_trim email of
              Inl err \<Rightarrow> Inl err
            | Inr normalized \<Rightarrow>
                (case findOne server_emailSetters w normalized of
                   Inl err \<Rightarrow> Inl err
                 | Inr None \<Rightarrow> Inr (failure 401 ''Invalid email or password'')
                 | Inr (Some user) \<Rightarrow>
                     (case bcrypt_compare_js password (user.password user) of
                        Inl err \<Rightarrow> Inl err
                      | Inr isPasswordValid \<Rightarrow>
                          if \<not> isPasswordValid
                          then Inr (failure 401 ''Invalid email or password'')
                          else (let token = jwt_sign (oid user) (user.email user)
                                              server_JWT_SECRET (now ev)
                                in Inr (auth_success 200 ''Login successful'' user token))))))"

definition server_login :: "world \<Rightarrow> env \<Rightarrow> request \<Rightarrow> response" where
  "server_login w ev req =
     (case server_login_try w ev req of
        Inr r \<Rightarrow> r
      | Inl error \<Rightarrow> failure_with_error 500 ''Server error during login'' error)"

definition server_profile_try :: "world \<Rightarrow> env \<Rightarrow> request \<Rightarrow> exn + response" where
  "server_profile_try w ev req =
     (let token = js (map_option (replace ''Bearer '' []) (header_authorization req)) in
      if falsy token
      then Inr (failure 401 ''No token provided'')
      else (case jwt_verify (str token) server_JWT_SECRET (now ev) of
              Inl err \<Rightarrow> Inl err
            | Inr decoded \<Rightarrow>
                (case findById w (claim_id decoded) of
                   Inl err \<Rightarrow> Inl err
                 | Inr None \<Rightarrow> Inr (failure 404 ''User not found'')
                 | Inr (Some user) \<Rightarrow> Inr (profile_success user))))"

definition server_profile :: "world \<Rightarrow> env \<Rightarrow> request \<Rightarrow> response" where
  "server_profile w ev req =
     (case server_profile_try w ev req of
        Inr r \<Rightarrow> r
      | Inl error \<Rightarrow> failure 401 ''Invalid or expired token'')"

definition server_notFound :: response where
  "server_notFound = failure 404 ''Route not found''"

definition server_errorHandler :: "string \<Rightarrow> response" where
  "server_errorHandler errMessage =
     json_response 500
       [(''success'', JBool False), (''message'', JStr ''Internal server error''),
        (''error'', JStr errMessage)]"

text \<open>
  The middleware chain: an error of the JSON body parser goes to the global error
  handler, a parsed request to the handler of its route, any other request to the 404
  handler.
\<close>

definition app :: "world \<Rightarrow> env \<Rightarrow> request \<Rightarrow> response \<times> world" where
  "app w ev req =
     (case bodyError req of
        Some errMessage \<Rightarrow> (server_errorHandler errMessage, w)
      | None \<Rightarrow>
          (case endpoint req of
             GET_health \<Rightarrow> (server_health w ev, w)
           | POST_register \<Rightarrow> server_register w ev req
           | POST_login \<Rightarrow> (server_login w ev req, w)
           | GET_profile \<Rightarrow> (server_profile w ev req, w)
           | Unmatched \<Rightarrow> (server_notFound, w)))"

section \<open>controllers/auth.controller.js\<close>

text \<open>
  The controller requires \<open>../models/User.model\<close>, which is not among the sources. What
  the controller uses of it is a parameter: the setters of the schema's \<open>email\<close> path;
  what \<open>User.findOne\<close> gives, over the documents of the collection, for an \<open>email\<close>
  filter that is not a string; what the model ends up storing for the password handed
  to \<open>new User\<close>, after its cast, its validators and its pre-save hook (given the salt
  it draws), or the exception it throws; and the method \<open>comparePassword\<close> (candidate,
  stored).
\<close>

text \<open>
  Modelled from the spec: the store behind the controller's User model. A user record
  has a unique id, an email, which is required and unique, the uniqueness being
  enforced at write time, and the time of its creation (spec, User record and
  Credential Store); the schema in server.js has the same.
\<close>

record user_model =
  emailSetters :: "string \<Rightarrow> string"
  filterOther :: "jsvalue \<Rightarrow> user list \<Rightarrow> exn + user option"
  storedPassword :: "string \<Rightarrow> jsvalue \<Rightarrow> exn + string"
  comparePassword :: "jsvalue \<Rightarrow> string \<Rightarrow> exn + bool"

text \<open>\<open>User.findOne({ email })\<close> with the email as the request has it.\<close>

definition findOne_value :: "user_model \<Rightarrow> world \<Rightarrow> jsvalue \<Rightarrow> exn + user option" where
  "findOne_value um w v =
     (case v of
        JSString e \<Rightarrow> findOne (emailSetters um) w e
      | _ \<Rightarrow>
          (case filterOther um v (users w) of
             Inl err \<Rightarrow> Inl err
           | Inr found \<Rightarrow> if readyState w \<noteq> 1 then Inl StoreUnavailable else Inr found))"

text \<open>\<open>process.env.JWT_SECRET || 'splito-secret-key-12345'\<close>\<close>

definition JWT_SECRET :: "(string \<rightharpoonup> string) \<Rightarrow> string" where
  "JWT_SECRET processEnv =
     (if falsy (js (processEnv ''JWT_SECRET'')) then ''splito-secret-key-12345''
      else str (js (processEnv ''JWT_SECRET'')))"

definition generateToken :: "(string \<rightharpoonup> string) \<Rightarrow> env \<Rightarrow> nat \<Rightarrow> string \<Rightarrow> string" where
  "generateToken processEnv ev userId userEmail =
     jwt_sign userId userEmail (JWT_SECRET processEnv) (now ev)"

definition register_try ::
  "user_model \<Rightarrow> (string \<rightharpoonup> string) \<Rightarrow> world \<Rightarrow> env \<Rightarrow> request \<Rightarrow> exn + response \<times> world" where
  "register_try um processEnv w ev req =
     (let email = body_email req; password = body_password req in
      if falsy email \<or> falsy password
      then Inr (failure 400 ''Please provide email and password'', w)
      else if lengthBelow6 password
      then Inr (failure 400 ''Password must be at least 6 characters'', w)
      else (case findOne_value um w email of
              Inl err \<Rightarrow> Inl err
            | Inr (Some existingUser) \<Rightarrow>
                Inr (failure 400 ''User already exists with this email'', w)
            | Inr None \<Rightarrow>
                (case toLowerCase_trim email of
                   Inl err \<Rightarrow> Inl err
                 | Inr normalized \<Rightarrow>
                     (let created = new_User (emailSetters um) w ev normalized [] in
                      if user.email created = []
                      then Inl (ValidationError ''email: Path `email` is required.'')
                      else (case storedPassword um (salt ev) password of
                              Inl err \<Rightarrow> Inl err
                            | Inr stored \<Rightarrow>
                                (let user = created\<lparr>user.password := stored\<rparr> in
                                 case insertOne w user of
                                   Inl err \<Rightarrow> Inl err
                                 | Inr w' \<Rightarrow>
                                     (let token = generateToken processEnv ev (oid user)
                                                    (user.email user)
                                      in Inr (auth_success 201 ''User registered successfully''
                                                user token, w'))))))))"

definition register ::
  "user_model \<Rightarrow> (string \<rightharpoonup> string) \<Rightarrow> world \<Rightarrow> env \<Rightarrow> request \<Rightarrow> response \<times> world" where
  "register um processEnv w ev req =
     (case register_try um processEnv w ev req of
        Inr r \<Rightarrow> r
      | Inl error \<Rightarrow> (failure_with_error 500 ''Error in registration'' error, w))"

definition login_try ::
  "user_model \<Rightarrow> (string \<rightharpoonup> string) \<Rightarrow> world \<Rightarrow> env \<Rightarrow> request \<Rightarrow> exn + response" where
  "login_try um processEnv w ev req =
     (let email = body_email req; password = body_password req in
      if falsy email \<or> falsy password
      then Inr (failure 400 ''Please provide email and password'')
      else (case toLowerCase_trim email of
              Inl err \<Rightarrow> Inl err
            | Inr normalized \<Rightarrow>
                (case findOne (emailSetters um) w normalized of
                   Inl err \<Rightarrow> Inl err
                 | Inr None \<Rightarrow> Inr (failure 401 ''Invalid email or password'')
                 | Inr (Some user) \<Rightarrow>
                     (case comparePassword um password (user.password user) of
                        Inl err \<Rightarrow> Inl err
                      | Inr isPasswordValid \<Rightarrow>
                          if \<not> isPasswordValid
                          then Inr (failure 401 ''Invalid email or password'')
                          else (let token = generateToken processEnv ev (oid user)
                                              (user.email user)
                                in Inr (auth_success 200 ''Login successful'' user token))))))"

definition login ::
  "user_model \<Rightarrow> (string \<rightharpoonup> string) \<Rightarrow> world \<Rightarrow> env \<Rightarrow> request \<Rightarrow> response" where
  "login um processEnv w ev req =
     (case login_try um processEnv w ev req of
        Inr r \<Rightarrow> r
      | Inl error \<Rightarrow> failure_with_error 500 ''Error in login'' error)"

definition getProfile_try :: "(string \<rightharpoonup> string) \<Rightarrow> world \<Rightarrow> env \<Rightarrow> request \<Rightarrow> exn + response" where
  "getProfile_try processEnv w ev req =
     (let token = js (map_option (replace ''Bearer '' []) (header_authorization req)) in
      if falsy token
      then Inr (failure 401 ''Access denied. No token provided.'')
      else (case jwt_verify (str token) (JWT_SECRET processEnv) (now ev) of
              Inl err \<Rightarrow> Inl err
            | Inr decoded \<Rightarrow>
                (case findById w (claim_id decoded) of
                   Inl err \<Rightarrow> Inl err
                 | Inr None \<Rightarrow> Inr (failure 404 ''User not found'')
                 | Inr (Some user) \<Rightarrow> Inr (profile_success user))))"

definition getProfile :: "(string \<rightharpoonup> string) \<Rightarrow> world \<Rightarrow> env \<Rightarrow> request \<Rightarrow> response" where
  "getProfile processEnv w ev req =
     (case getProfile_try processEnv w ev req of
        Inr r \<Rightarrow> r
      | Inl error \<Rightarrow> failure 401 ''Invalid or expired token'')"

section \<open>Reading a response\<close>

definition token_of :: "response \<Rightarrow> string option" where
  "token_of r =
     (case field (body r) ''data'' of
        Some d \<Rightarrow> (case field d ''token'' of Some (JStr t) \<Rightarrow> Some t | _ \<Rightarrow> None)
      | None \<Rightarrow> None)"

text \<open>
  The response envelope: a boolean field \<open>success\<close>, and a string field \<open>message\<close>
  when \<open>success\<close> is false.
\<close>

definition envelope :: "response \<Rightarrow> bool" where
  "envelope r =
     (case field (body r) ''success'' of
        Some (JBool True) \<Rightarrow> True
      | Some (JBool False) \<Rightarrow>
          (case field (body r) ''message'' of Some (JStr m) \<Rightarrow> True | _ \<Rightarrow> False)
      | _ \<Rightarrow> False)"

section \<open>Sample inputs\<close>

abbreviation connected :: "user list \<Rightarrow> world" where
  "connected us \<equiv> \<lparr>users = us, readyState = 1\<rparr>"

abbreviation disconnected :: "user list \<Rightarrow> world" where
  "disconnected us \<equiv> \<lparr>users = us, readyState = 0\<rparr>"

abbreviation at_time :: "nat \<Rightarrow> env" where
  "at_time t \<equiv> \<lparr>now = t, salt = ''salt''\<rparr>"

abbreviation credentials :: "endpoint \<Rightarrow> string \<Rightarrow> string \<Rightarrow> request" where
  "credentials ep e p \<equiv>
     \<lparr>endpoint = ep, bodyError = None, authorization = None,
      body_email = JSString e, body_password = JSString p\<rparr>"

abbreviation with_authorization :: "string option \<Rightarrow> request" where
  "with_authorization h \<equiv>
     \<lparr>endpoint = GET_profile, bodyError = None, authorization = h,
      body_email = JSUndefined, body_password = JSUndefined\<rparr>"

text \<open>
  A User model for the controller with the email setters of the schema in server.js,
  which hashes and compares string passwords with bcrypt.
\<close>

abbreviation sample_User_model :: user_model where
  "sample_User_model \<equiv>
     \<lparr>emailSetters = server_emailSetters,
      filterOther = (\<lambda>v us. Inr None),
      storedPassword = bcrypt_hash_js,
      comparePassword = bcrypt_compare_js\<rparr>"

section \<open>Facts about the encodings\<close>

declare natToHex.simps [simp del]

lemma indexOf_nth: "distinct xs \<Longrightarrow> m < length xs \<Longrightarrow> indexOf xs (xs ! m) = Some m"
proof (induction xs arbitrary: m)
  case Nil
  then show ?case by simp
next
  case (Cons x xs)
  show ?case
  proof (cases m)
    case 0
    then show ?thesis by simp
  next
    case (Suc k)
    with Cons.prems have "xs ! k \<in> set xs" "x \<notin> set xs" by auto
    then have "x \<noteq> xs ! k" by auto
    with Suc Cons show ?thesis by simp
  qed
qed

lemma hexChars_distinct: "distinct hexChars"
  by (simp add: hexChars_def)

lemma hexChars_length: "length hexChars = 16"
  by (simp add: hexChars_def)

lemma hexValue_hexDigit: "hexValue (hexDigit n) = Some (n mod 16)"
  by (simp add: hexValue_def hexDigit_def indexOf_nth hexChars_distinct hexChars_length)

lemma hexDigit_in: "hexDigit n \<in> set hexChars"
  by (simp add: hexDigit_def hexChars_length)

lemma hexChars_base64: "c \<in> set hexChars \<Longrightarrow> isBase64UrlChar c"
  by (auto simp: hexChars_def isBase64UrlChar_def)

lemma hexChars_not_sep:
  "c \<in> set hexChars \<Longrightarrow> c \<noteq> CHR ''-'' \<and> c \<noteq> CHR ''.'' \<and> c \<noteq> CHR ''$''"
  by (auto simp: hexChars_def)

lemma hexEncode_chars: "set (hexEncode s) \<subseteq> set hexChars"
  by (induction s) (auto simp: hexEncode_def hexEncodeChar_def hexDigit_in)

lemma hexEncode_Cons: "hexEncode (c # s) = hexEncodeChar c @ hexEncode s"
  by (simp add: hexEncode_def)

lemma hexEncode_Nil_iff: "hexEncode s = [] \<longleftrightarrow> s = []"
  by (cases s) (simp_all add: hexEncode_def hexEncodeChar_def)

lemma hexDecode_hexEncode: "hexDecode (hexEncode s) = Some s"
proof (induction s)
  case Nil
  then show ?case by (simp add: hexEncode_def)
next
  case (Cons c s)
  have lt: "(of_char c :: nat) < 256" by simp
  have "(of_char c :: nat) div 16 < 16"
    using lt by (simp add: div_less_iff_less_mult)
  then have hi: "(of_char c :: nat) div 16 mod 16 = of_char c div 16"
    by simp
  have "16 * ((of_char c :: nat) div 16) + of_char c mod 16 = of_char c" by simp
  with Cons hi show ?case
    by (simp add: hexEncode_Cons hexEncodeChar_def hexValue_hexDigit)
qed

lemma hexEncode_inj: "hexEncode a = hexEncode b \<Longrightarrow> a = b"
  by (metis hexDecode_hexEncode option.inject)

lemma natToHex_chars: "set (natToHex n) \<subseteq> set hexChars"
  by (induction n rule: natToHex.induct) (subst natToHex.simps, auto simp: hexDigit_in)

lemma natToHex_not_Nil: "natToHex n \<noteq> []"
  by (subst natToHex.simps) simp

lemma hexToNat_snoc:
  "hexToNat acc (xs @ [c]) =
     (case hexToNat acc xs of
        None \<Rightarrow> None
      | Some a \<Rightarrow> (case hexValue c of None \<Rightarrow> None | Some d \<Rightarrow> Some (16 * a + d)))"
  by (induction xs arbitrary: acc) (auto split: option.splits)

lemma hexToNat_natToHex: "hexToNat 0 (natToHex n) = Some n"
proof (induction n rule: natToHex.induct)
  case (1 n)
  show ?case
  proof (cases "n < 16")
    case True
    then show ?thesis
      by (subst natToHex.simps) (simp add: hexValue_hexDigit)
  next
    case False
    with 1 have "hexToNat 0 (natToHex (n div 16)) = Some (n div 16)" by simp
    with False show ?thesis
      by (subst natToHex.simps) (simp add: hexToNat_snoc hexValue_hexDigit)
  qed
qed

lemma parseNat_natToHex: "parseNat (natToHex n) = Some n"
  by (simp add: parseNat_def natToHex_not_Nil hexToNat_natToHex)

lemma split_no_sep: "sep \<notin> set a \<Longrightarrow> split sep a = [a]"
  by (induction a) auto

lemma split_append: "sep \<notin> set a \<Longrightarrow> split sep (a @ sep # r) = a # split sep r"
  by (induction a) auto

lemma split_chars: "c \<in> set t \<Longrightarrow> c = sep \<or> (\<exists>p \<in> set (split sep t). c \<in> set p)"
  by (induction t) (auto split: list.splits)

lemma hexEncode_no_sep:
  "CHR ''-'' \<notin> set (hexEncode s)" "CHR ''.'' \<notin> set (hexEncode s)" "CHR ''$'' \<notin> set (hexEncode s)"
  using hexEncode_chars [of s] hexChars_not_sep by blast+

lemma natToHex_no_sep:
  "CHR ''-'' \<notin> set (natToHex n)" "CHR ''.'' \<notin> set (natToHex n)"
  using natToHex_chars [of n] hexChars_not_sep by blast+

lemma hexEncode_base64: "list_all isBase64UrlChar (hexEncode s)"
  using hexEncode_chars [of s] hexChars_base64 by (auto simp: list_all_iff)

lemma natToHex_base64: "list_all isBase64UrlChar (natToHex n)"
  using natToHex_chars [of n] hexChars_base64 by (auto simp: list_all_iff)

lemma dash_base64: "isBase64UrlChar (CHR ''-'')"
  by (simp add: isBase64UrlChar_def)

lemma space_not_base64: "\<not> isBase64UrlChar (CHR '' '')"
  by (simp add: isBase64UrlChar_def)

lemma decodeClaims_encodeClaims: "decodeClaims (encodeClaims c) = Some c"
  by (simp add: decodeClaims_def encodeClaims_def split_append split_no_sep
      natToHex_no_sep hexEncode_no_sep parseNat_natToHex hexDecode_hexEncode)

lemma encodeClaims_segment: "isTokenSegment (encodeClaims c)"
  by (simp add: isTokenSegment_def encodeClaims_def natToHex_not_Nil
      natToHex_base64 hexEncode_base64 dash_base64)

lemma encodeClaims_no_dot: "CHR ''.'' \<notin> set (encodeClaims c)"
  by (simp add: encodeClaims_def natToHex_no_sep hexEncode_no_sep)

lemma jwt_header_segment: "isTokenSegment jwt_header"
  by (simp add: isTokenSegment_def jwt_header_def hexEncode_base64 hexEncode_Nil_iff)

lemma underscore_base64: "isBase64UrlChar (CHR ''_'')"
  by (simp add: isBase64UrlChar_def)

lemma hmac_segment: "isTokenSegment (hmac secret m)"
  by (simp add: isTokenSegment_def hmac_def hexEncode_base64 underscore_base64)

lemma hmac_no_dot: "CHR ''.'' \<notin> set (hmac secret m)"
  by (simp add: hmac_def hexEncode_no_sep)

lemma hmac_inj: "hmac k m = hmac k' m \<Longrightarrow> keyBlock k = keyBlock k'"
  by (auto simp: hmac_def dest: hexEncode_inj)

lemma hmac_keyBlock: "keyBlock k = keyBlock k' \<Longrightarrow> hmac k m = hmac k' m"
  by (simp add: hmac_def)

lemma split_jwt_sign:
  "split (CHR ''.'') (jwt_sign i e k t) =
     [jwt_header,
      encodeClaims \<lparr>claim_id = i, claim_email = e, iat = t div 1000, exp = t div 1000 + sevenDays\<rparr>,
      hmac k (jwt_header @ ''.'' @
        encodeClaims \<lparr>claim_id = i, claim_email = e, iat = t div 1000, exp = t div 1000 + sevenDays\<rparr>)]"
  by (simp add: jwt_sign_def Let_def split_append split_no_sep encodeClaims_no_dot
      jwt_header_def hmac_no_dot hexEncode_no_sep)

lemma jwt_verify_sign:
  "jwt_verify (jwt_sign i e k t) k t' =
     (if t div 1000 + sevenDays \<le> t' div 1000 then Inl TokenExpiredError
      else Inr \<lparr>claim_id = i, claim_email = e, iat = t div 1000, exp = t div 1000 + sevenDays\<rparr>)"
  by (simp add: jwt_verify_def split_jwt_sign jwt_header_segment encodeClaims_segment
      hmac_segment decodeClaims_encodeClaims)

lemma jwt_verify_other_secret:
  "keyBlock k \<noteq> keyBlock k' \<Longrightarrow>
   jwt_verify (jwt_sign i e k t) k' t' = Inl (JsonWebTokenError ''invalid signature'')"
  by (auto simp add: jwt_verify_def split_jwt_sign jwt_header_segment encodeClaims_segment
      hmac_segment decodeClaims_encodeClaims dest: hmac_inj)

lemma jwt_verify_no_space:
  assumes "jwt_verify token k t = Inr c"
  shows "CHR '' '' \<notin> set token"
proof
  assume sp: "CHR '' '' \<in> set token"
  from assms obtain h p s where parts: "split (CHR ''.'') token = [h, p, s]"
    and segs: "isTokenSegment h" "isTokenSegment p" "isTokenSegment s"
    by (auto simp: jwt_verify_def split: list.splits if_splits)
  from split_chars [OF sp, of "CHR ''.''"] parts
  have "CHR '' '' \<in> set h \<or> CHR '' '' \<in> set p \<or> CHR '' '' \<in> set s" by auto
  with segs space_not_base64 show False
    by (auto simp: isTokenSegment_def list_all_iff)
qed

lemma bcrypt_compare_hash: "bcrypt_compare p (bcrypt_hash s p)"
  by (simp add: bcrypt_compare_def bcrypt_hash_def Let_def bcrypt_digest_def
      split_append split_no_sep hexEncode_no_sep)

lemma bcrypt_compare_hash_iff: "bcrypt_compare p (bcrypt_hash s q) \<longleftrightarrow> take 72 p = take 72 q"
  by (auto simp add: bcrypt_compare_def bcrypt_hash_def Let_def bcrypt_digest_def
      split_append split_no_sep hexEncode_no_sep dest: hexEncode_inj)

lemma bcrypt_hash_not_Nil: "bcrypt_hash s p \<noteq> []"
  by (simp add: bcrypt_hash_def Let_def)

lemma jwt_sign_not_Nil: "jwt_sign i e k t \<noteq> []"
  by (simp add: jwt_sign_def Let_def)

lemma jwt_verify_not_Nil: "jwt_verify t k n = Inr c \<Longrightarrow> t \<noteq> []"
  by (auto simp: jwt_verify_def)

lemma jwt_verify_at_issue:
  "\<exists>c. jwt_verify (jwt_sign i e k t) k t = Inr c"
  by (simp add: jwt_verify_sign sevenDays_def)

lemma jwt_sign_no_space: "CHR '' '' \<notin> set (jwt_sign i e k t)"
  using jwt_verify_at_issue [of i e k t] by (auto dest: jwt_verify_no_space)

lemma ms_div:
  "(T + 601200000) div 1000 = T div 1000 + (601200::nat)"
  "(T + 604801000) div 1000 = T div 1000 + (604801::nat)"
  by simp_all

lemma jwt_lifetime:
  shows "jwt_verify (jwt_sign i e k T) k T =
           Inr \<lparr>claim_id = i, claim_email = e, iat = T div 1000, exp = T div 1000 + 7 * 24 * 60 * 60\<rparr>"
    and "jwt_verify (jwt_sign i e k T) k (T + 601200000) =
           Inr \<lparr>claim_id = i, claim_email = e, iat = T div 1000, exp = T div 1000 + 7 * 24 * 60 * 60\<rparr>"
    and "jwt_verify (jwt_sign i e k T) k (T + 604801000) = Inl TokenExpiredError"
  by (simp_all add: jwt_verify_sign sevenDays_def ms_div)

section \<open>Facts about strings\<close>

lemma isWhiteSpace_toLowerChar: "isWhiteSpace (toLowerChar c) = isWhiteSpace c"
  by (auto simp: isWhiteSpace_def toLowerChar_def Let_def)

lemma toLowerChar_idem: "toLowerChar (toLowerChar c) = toLowerChar c"
  by (auto simp: toLowerChar_def Let_def)

lemma toLowerCase_idem: "toLowerCase (toLowerCase s) = toLowerCase s"
  by (simp add: toLowerCase_def toLowerChar_idem)

lemma dropWhile_toLowerCase:
  "dropWhile isWhiteSpace (toLowerCase s) = toLowerCase (dropWhile isWhiteSpace s)"
  by (induction s) (auto simp: toLowerCase_def isWhiteSpace_toLowerChar)

lemma rev_toLowerCase: "rev (toLowerCase s) = toLowerCase (rev s)"
  by (simp add: toLowerCase_def rev_map)

lemma trim_toLowerCase: "trim (toLowerCase s) = toLowerCase (trim s)"
  by (simp add: trim_def dropWhile_toLowerCase rev_toLowerCase)

lemma dropWhile_trim: "dropWhile isWhiteSpace (trim s) = trim s"
proof -
  define a where "a = dropWhile isWhiteSpace s"
  define b where "b = rev (dropWhile isWhiteSpace (rev a))"
  have hd_a: "a \<noteq> [] \<Longrightarrow> \<not> isWhiteSpace (hd a)"
    unfolding a_def by (rule hd_dropWhile)
  have "dropWhile isWhiteSpace b = b"
  proof (cases b)
    case Nil
    then show ?thesis by simp
  next
    case (Cons x xs)
    have "rev a = takeWhile isWhiteSpace (rev a) @ dropWhile isWhiteSpace (rev a)" by simp
    then have "a = b @ rev (takeWhile isWhiteSpace (rev a))"
      unfolding b_def by (metis rev_append rev_rev_ident)
    with Cons have "a = x # xs @ rev (takeWhile isWhiteSpace (rev a))" by simp
    then have "a \<noteq> []" "hd a = x" by (metis list.distinct(1), metis list.sel(1))
    with hd_a have "\<not> isWhiteSpace x" by simp
    with Cons show ?thesis by simp
  qed
  then show ?thesis by (simp add: trim_def a_def b_def)
qed

lemma trim_idem: "trim (trim s) = trim s"
proof -
  have "trim (trim s) = rev (dropWhile isWhiteSpace (rev (trim s)))"
    by (subst trim_def) (simp add: dropWhile_trim)
  also have "\<dots> = trim s"
    by (simp add: trim_def dropWhile_idem)
  finally show ?thesis .
qed

lemma server_emailSetters_normalized:
  "server_emailSetters (trim (toLowerCase e)) = trim (toLowerCase e)"
  by (simp add: server_emailSetters_def trim_toLowerCase toLowerCase_idem trim_idem)

lemma replace_prefix: "pat \<noteq> [] \<Longrightarrow> replace pat rep (pat @ t) = rep @ t"
proof -
  assume "pat \<noteq> []"
  then obtain x xs where eq: "pat @ t = x # xs" by (cases pat) auto
  have "prefix pat (x # xs)" unfolding eq [symmetric] by simp
  then have "replace pat rep (x # xs) = rep @ drop (length pat) (x # xs)" by simp
  then show ?thesis unfolding eq [symmetric] by simp
qed

lemma replace_absent: "c \<in> set pat \<Longrightarrow> c \<notin> set t \<Longrightarrow> replace pat rep t = t"
proof (induction t)
  case Nil
  then show ?case by auto
next
  case (Cons x xs)
  from Cons.prems have "\<not> prefix pat (x # xs)"
    by (meson set_mono_prefix subsetD)
  with Cons show ?case by simp
qed

lemma replace_empty_iff:
  "pat \<noteq> [] \<Longrightarrow> replace pat [] h = [] \<longleftrightarrow> h = [] \<or> h = pat"
proof (cases h)
  case Nil
  then show "pat \<noteq> [] \<Longrightarrow> ?thesis" by simp
next
  case (Cons x xs)
  assume ne: "pat \<noteq> []"
  show ?thesis
  proof (cases "prefix pat (x # xs)")
    case True
    then obtain r where r: "x # xs = pat @ r" by (auto simp: prefix_def)
    from True have "replace pat [] (x # xs) = drop (length pat) (x # xs)" by simp
    then have "replace pat [] (x # xs) = r" unfolding r by simp
    with r Cons show ?thesis by auto
  next
    case False
    with Cons show ?thesis by auto
  qed
qed

lemma bearer_token: "replace ''Bearer '' [] (''Bearer '' @ t) = t"
  using replace_prefix [of "''Bearer ''" "[]" t] by simp

lemma replace_bearer_empty_iff:
  "replace ''Bearer '' [] h = [] \<longleftrightarrow> h = [] \<or> h = ''Bearer ''"
  using replace_empty_iff [of "''Bearer ''" h] by simp

lemma replace_bearer_no_space: "CHR '' '' \<notin> set t \<Longrightarrow> replace ''Bearer '' [] t = t"
  using replace_absent [of "CHR '' ''" "''Bearer ''" t "[]"] by simp


lemma normalize_sample: "trim (toLowerCase ''a@test.com'') = ''a@test.com''"
  by (simp add: trim_def toLowerCase_def toLowerChar_def isWhiteSpace_def)

lemma normalize_sample_upper: "trim (toLowerCase ''A@Test.com '') = ''a@test.com''"
  by code_simp

lemma server_emailSetters_sample: "server_emailSetters ''a@test.com'' = ''a@test.com''"
  by (simp add: server_emailSetters_def normalize_sample)

section \<open>Facts about the collection\<close>







lemma find_mem: "x \<in> set xs \<Longrightarrow> P x \<Longrightarrow> find P xs \<noteq> None"
  by (auto simp: find_None_iff)

lemma store_unavailable:
  assumes "readyState w \<noteq> 1"
  shows "findOne setters w e = Inl StoreUnavailable" and "findById w i = Inl StoreUnavailable"
  using assms by (simp_all add: findOne_def findById_def)

section \<open>Facts about responses\<close>

lemma status_failure: "status (failure code msg) = code"
  by (simp add: failure_def json_response_def)

lemma status_failure_with_error: "status (failure_with_error code msg err) = code"
  by (simp add: failure_with_error_def json_response_def)

lemma status_auth_success: "status (auth_success code msg u t) = code"
  by (simp add: auth_success_def json_response_def)

lemma status_profile_success: "status (profile_success u) = 200"
  by (simp add: profile_success_def json_response_def)

lemma success_failure: "field (body (failure code msg)) ''success'' = Some (JBool False)"
  by (simp add: failure_def json_response_def)

lemma message_failure: "field (body (failure code msg)) ''message'' = Some (JStr msg)"
  by (simp add: failure_def json_response_def)

lemma success_failure_with_error:
  "field (body (failure_with_error code msg err)) ''success'' = Some (JBool False)"
  by (simp add: failure_with_error_def json_response_def)

lemma message_failure_with_error:
  "field (body (failure_with_error code msg err)) ''message'' = Some (JStr msg)"
  by (simp add: failure_with_error_def json_response_def)

lemma success_auth_success: "field (body (auth_success code msg u t)) ''success'' = Some (JBool True)"
  by (simp add: auth_success_def json_response_def)

lemma success_profile_success: "field (body (profile_success u)) ''success'' = Some (JBool True)"
  by (simp add: profile_success_def json_response_def)

lemma token_of_auth_success: "token_of (auth_success code msg u t) = Some t"
  by (simp add: token_of_def auth_success_def json_response_def)

lemma token_of_failure: "token_of (failure code msg) = None"
  by (simp add: token_of_def failure_def json_response_def)

lemma token_of_failure_with_error: "token_of (failure_with_error code msg err) = None"
  by (simp add: token_of_def failure_with_error_def json_response_def)

lemma envelope_failure: "envelope (failure code msg)"
  by (simp add: envelope_def success_failure message_failure)

lemma envelope_failure_with_error: "envelope (failure_with_error code msg err)"
  by (simp add: envelope_def success_failure_with_error message_failure_with_error)

lemma envelope_auth_success: "envelope (auth_success code msg u t)"
  by (simp add: envelope_def success_auth_success)

lemma envelope_profile_success: "envelope (profile_success u)"
  by (simp add: envelope_def success_profile_success)

lemma failure_eq_iff: "failure c m = failure c' m' \<longleftrightarrow> c = c' \<and> m = m'"
  by (auto simp: failure_def json_response_def)

lemma failure_neq_profile_success: "failure c m \<noteq> profile_success u"
  by (simp add: failure_def profile_success_def json_response_def)


lemma envelope_iff:
  "envelope r \<longleftrightarrow>
     (\<exists>b. field (body r) ''success'' = Some (JBool b)
          \<and> (b \<or> (\<exists>m. field (body r) ''message'' = Some (JStr m))))"
  by (auto simp: envelope_def split: option.splits json.splits bool.splits)

section \<open>Facts about request headers\<close>

lemma headerValue_unchanged:
  assumes "s \<noteq> []" and "\<not> isBlank (hd s)" and "\<not> isBlank (last s)"
  shows "headerValue s = s"
proof -
  from assms(1,2) have front: "dropWhile isBlank s = s"
    by (cases s) simp_all
  from assms(1,3) have "dropWhile isBlank (rev s) = rev s"
    by (cases "rev s") (simp_all add: hd_rev [symmetric])
  with front show ?thesis by (simp add: headerValue_def)
qed

lemma headerValue_last: "headerValue raw \<noteq> [] \<Longrightarrow> \<not> isBlank (last (headerValue raw))"
proof -
  define d where "d = dropWhile isBlank (rev (dropWhile isBlank raw))"
  assume "headerValue raw \<noteq> []"
  then have "d \<noteq> []" by (simp add: headerValue_def d_def)
  then have "\<not> isBlank (hd d)" unfolding d_def by (rule hd_dropWhile)
  moreover have "last (headerValue raw) = hd d"
    using \<open>d \<noteq> []\<close> by (simp add: headerValue_def d_def [symmetric] last_rev)
  ultimately show ?thesis by simp
qed

lemma headerValue_not_bearer: "headerValue raw \<noteq> ''Bearer ''"
proof
  assume eq: "headerValue raw = ''Bearer ''"
  then have "headerValue raw \<noteq> []" by simp
  then have "\<not> isBlank (last (headerValue raw))" by (rule headerValue_last)
  with eq show False by (simp add: isBlank_def)
qed

lemma blank_not_base64: "isBlank c \<Longrightarrow> \<not> isBase64UrlChar c"
  by (auto simp: isBlank_def isBase64UrlChar_def)

lemma jwt_verify_no_blank:
  assumes "jwt_verify token k t = Inr c" and "x \<in> set token"
  shows "\<not> isBlank x"
proof
  assume blank: "isBlank x"
  from assms(1) obtain h p s where parts: "split (CHR ''.'') token = [h, p, s]"
    and segs: "isTokenSegment h" "isTokenSegment p" "isTokenSegment s"
    by (auto simp: jwt_verify_def split: list.splits if_splits)
  from blank have "x \<noteq> CHR ''.''" by (auto simp: isBlank_def)
  with split_chars [OF assms(2), of "CHR ''.''"] parts
  have "x \<in> set h \<or> x \<in> set p \<or> x \<in> set s" by auto
  with segs blank_not_base64 [OF blank] show False
    by (auto simp: isTokenSegment_def list_all_iff)
qed

lemma headerValue_token:
  assumes "jwt_verify t k n = Inr c"
  shows "headerValue t = t" and "headerValue (''Bearer '' @ t) = ''Bearer '' @ t"
proof -
  from assms have ne: "t \<noteq> []" by (rule jwt_verify_not_Nil)
  then have "hd t \<in> set t" "last t \<in> set t" by simp_all
  then have ends: "\<not> isBlank (hd t)" "\<not> isBlank (last t)"
    using jwt_verify_no_blank [OF assms] by blast+
  from ne ends show "headerValue t = t" by (rule headerValue_unchanged)
  have "\<not> isBlank (hd (''Bearer '' @ t))" by (simp add: isBlank_def)
  moreover from ne ends(2) have "\<not> isBlank (last (''Bearer '' @ t))" by simp
  ultimately show "headerValue (''Bearer '' @ t) = ''Bearer '' @ t"
    by (intro headerValue_unchanged) simp_all
qed

lemma headerValue_jwt_sign:
  "headerValue (jwt_sign i e k t) = jwt_sign i e k t"
  "headerValue (''Bearer '' @ jwt_sign i e k t) = ''Bearer '' @ jwt_sign i e k t"
proof -
  obtain c where "jwt_verify (jwt_sign i e k t) k t = Inr c"
    using jwt_verify_at_issue [of i e k t] by blast
  then show "headerValue (jwt_sign i e k t) = jwt_sign i e k t"
    "headerValue (''Bearer '' @ jwt_sign i e k t) = ''Bearer '' @ jwt_sign i e k t"
    by (rule headerValue_token)+
qed

lemma keyBlock_secrets_differ:
  "keyBlock ''splito-secret-key-12345'' \<noteq> keyBlock ''splito-jwt-secret-key-2024''"
  by (simp add: keyBlock_def)

lemma keyBlock_zero_padded:
  assumes "length k < 64"
  shows "keyBlock (k @ [CHR 0x00]) = keyBlock k"
proof -
  from assms have "64 - length k = Suc (63 - length k)" by simp
  then have "replicate (64 - length k) (CHR 0x00) = CHR 0x00 # replicate (63 - length k) (CHR 0x00)"
    by simp
  with assms show ?thesis by (simp add: keyBlock_def)
qed

section \<open>Facts about the handlers\<close>

lemma toLowerCase_trim_str:
  "toLowerCase_trim v = Inr e \<longleftrightarrow> v = JSString (str v) \<and> e = trim (toLowerCase (str v))"
  by (cases v) (auto simp: toLowerCase_trim_def)

lemma toLowerCase_trim_JSString: "toLowerCase_trim (JSString s) = Inr (trim (toLowerCase s))"
  by (simp add: toLowerCase_trim_def)

lemma bcrypt_hash_js_JSString: "bcrypt_hash_js s (JSString p) = Inr (bcrypt_hash s p)"
  by (simp add: bcrypt_hash_js_def)

lemma bcrypt_compare_js_JSString: "bcrypt_compare_js (JSString p) h = Inr (bcrypt_compare p h)"
  by (simp add: bcrypt_compare_js_def)

lemma JWT_SECRET_not_Nil: "JWT_SECRET processEnv \<noteq> []"
  by (cases "processEnv ''JWT_SECRET''") (simp_all add: JWT_SECRET_def js_def)

lemma JWT_SECRET_unset: "processEnv ''JWT_SECRET'' = None \<Longrightarrow> JWT_SECRET processEnv = ''splito-secret-key-12345''"
  by (simp add: JWT_SECRET_def js_def)

lemma secret_keyBlocks_differ:
  "processEnv ''JWT_SECRET'' = None \<Longrightarrow> keyBlock (JWT_SECRET processEnv) \<noteq> keyBlock server_JWT_SECRET"
  by (simp add: JWT_SECRET_unset server_JWT_SECRET_def keyBlock_secrets_differ)

lemma header_authorization_token:
  assumes "jwt_verify t k n = Inr c"
  shows "authorization req = Some t \<Longrightarrow> header_authorization req = Some t"
    and "authorization req = Some (''Bearer '' @ t) \<Longrightarrow> header_authorization req = Some (''Bearer '' @ t)"
  using headerValue_token [OF assms] by (simp_all add: header_authorization_def)

lemma header_authorization_jwt_sign:
  "authorization req = Some (jwt_sign i e k t) \<Longrightarrow> header_authorization req = Some (jwt_sign i e k t)"
  "authorization req = Some (''Bearer '' @ jwt_sign i e k t)
     \<Longrightarrow> header_authorization req = Some (''Bearer '' @ jwt_sign i e k t)"
  using headerValue_jwt_sign [of i e k t] by (simp_all add: header_authorization_def)

lemma server_profile_try_token:
  assumes "header_authorization req = Some h" and "replace ''Bearer '' [] h = t" and "t \<noteq> []"
  shows "server_profile_try w ev req =
           (case jwt_verify t server_JWT_SECRET (now ev) of
              Inl err \<Rightarrow> Inl err
            | Inr decoded \<Rightarrow>
                (case findById w (claim_id decoded) of
                   Inl err \<Rightarrow> Inl err
                 | Inr None \<Rightarrow> Inr (failure 404 ''User not found'')
                 | Inr (Some user) \<Rightarrow> Inr (profile_success user)))"
  using assms by (simp add: server_profile_try_def Let_def js_def)

lemma getProfile_try_token:
  assumes "header_authorization req = Some h" and "replace ''Bearer '' [] h = t" and "t \<noteq> []"
  shows "getProfile_try processEnv w ev req =
           (case jwt_verify t (JWT_SECRET processEnv) (now ev) of
              Inl err \<Rightarrow> Inl err
            | Inr decoded \<Rightarrow>
                (case findById w (claim_id decoded) of
                   Inl err \<Rightarrow> Inl err
                 | Inr None \<Rightarrow> Inr (failure 404 ''User not found'')
                 | Inr (Some user) \<Rightarrow> Inr (profile_success user)))"
  using assms by (simp add: getProfile_try_def Let_def js_def)

lemma no_token_iff:
  "falsy (js (map_option (replace ''Bearer '' []) h)) \<longleftrightarrow> h = None \<or> h = Some [] \<or> h = Some ''Bearer ''"
  by (cases h) (simp_all add: js_def replace_bearer_empty_iff)

lemma header_no_token_iff:
  "falsy (js (map_option (replace ''Bearer '' []) (header_authorization req)))
     \<longleftrightarrow> header_authorization req = None \<or> header_authorization req = Some []"
proof -
  have "header_authorization req \<noteq> Some ''Bearer ''"
    by (cases "authorization req")
      (simp_all add: header_authorization_def headerValue_not_bearer del: One_nat_def)
  then show ?thesis unfolding no_token_iff by blast
qed

lemma server_profile_no_token_iff:
  "server_profile w ev req = failure 401 ''No token provided''
     \<longleftrightarrow> header_authorization req = None \<or> header_authorization req = Some []"
proof (cases "falsy (js (map_option (replace ''Bearer '' []) (header_authorization req)))")
  case True
  then show ?thesis
    by (simp add: header_no_token_iff [symmetric] server_profile_def server_profile_try_def)
next
  case False
  then have "server_profile w ev req \<noteq> failure 401 ''No token provided''"
    by (auto simp: server_profile_def server_profile_try_def Let_def failure_eq_iff
        failure_neq_profile_success [symmetric] split: sum.splits option.splits)
  with False show ?thesis by (simp add: header_no_token_iff [symmetric])
qed

lemma getProfile_no_token_iff:
  "getProfile processEnv w ev req = failure 401 ''Access denied. No token provided.''
     \<longleftrightarrow> header_authorization req = None \<or> header_authorization req = Some []"
proof (cases "falsy (js (map_option (replace ''Bearer '' []) (header_authorization req)))")
  case True
  then show ?thesis
    by (simp add: header_no_token_iff [symmetric] getProfile_def getProfile_try_def)
next
  case False
  then have "getProfile processEnv w ev req \<noteq> failure 401 ''Access denied. No token provided.''"
    by (auto simp: getProfile_def getProfile_try_def Let_def failure_eq_iff
        failure_neq_profile_success [symmetric] split: sum.splits option.splits)
  with False show ?thesis by (simp add: header_no_token_iff [symmetric])
qed

lemma server_profile_valid_token:
  assumes "jwt_verify t server_JWT_SECRET (now ev) = Inr c"
    and "authorization req = Some t \<or> authorization req = Some (''Bearer '' @ t)"
  shows "server_profile_try w ev req =
           (case findById w (claim_id c) of
              Inl err \<Rightarrow> Inl err
            | Inr None \<Rightarrow> Inr (failure 404 ''User not found'')
            | Inr (Some user) \<Rightarrow> Inr (profile_success user))"
proof -
  from assms(1) have ne: "t \<noteq> []" and plain: "replace ''Bearer '' [] t = t"
    by (auto dest: jwt_verify_not_Nil jwt_verify_no_space intro: replace_bearer_no_space)
  from assms(2) show ?thesis
  proof
    assume "authorization req = Some t"
    then have "header_authorization req = Some t"
      by (rule header_authorization_token [OF assms(1)])
    from server_profile_try_token [OF this plain ne] assms(1) show ?thesis by simp
  next
    assume "authorization req = Some (''Bearer '' @ t)"
    then have "header_authorization req = Some (''Bearer '' @ t)"
      by (rule header_authorization_token [OF assms(1)])
    from server_profile_try_token [OF this bearer_token ne] assms(1) show ?thesis by simp
  qed
qed

lemma getProfile_valid_token:
  assumes "jwt_verify t (JWT_SECRET processEnv) (now ev) = Inr c"
    and "authorization req = Some t \<or> authorization req = Some (''Bearer '' @ t)"
  shows "getProfile_try processEnv w ev req =
           (case findById w (claim_id c) of
              Inl err \<Rightarrow> Inl err
            | Inr None \<Rightarrow> Inr (failure 404 ''User not found'')
            | Inr (Some user) \<Rightarrow> Inr (profile_success user))"
proof -
  from assms(1) have ne: "t \<noteq> []" and plain: "replace ''Bearer '' [] t = t"
    by (auto dest: jwt_verify_not_Nil jwt_verify_no_space intro: replace_bearer_no_space)
  from assms(2) show ?thesis
  proof
    assume "authorization req = Some t"
    then have "header_authorization req = Some t"
      by (rule header_authorization_token [OF assms(1)])
    from getProfile_try_token [OF this plain ne] assms(1) show ?thesis by simp
  next
    assume "authorization req = Some (''Bearer '' @ t)"
    then have "header_authorization req = Some (''Bearer '' @ t)"
      by (rule header_authorization_token [OF assms(1)])
    from getProfile_try_token [OF this bearer_token ne] assms(1) show ?thesis by simp
  qed
qed

lemma server_profile_other_secret:
  assumes "keyBlock k \<noteq> keyBlock server_JWT_SECRET"
    and "authorization req = Some (jwt_sign i e k t)
         \<or> authorization req = Some (''Bearer '' @ jwt_sign i e k t)"
  shows "server_profile w ev req = failure 401 ''Invalid or expired token''"
proof -
  have plain: "replace ''Bearer '' [] (jwt_sign i e k t) = jwt_sign i e k t"
    by (intro replace_bearer_no_space jwt_sign_no_space)
  have rejected: "jwt_verify (jwt_sign i e k t) server_JWT_SECRET (now ev)
      = Inl (JsonWebTokenError ''invalid signature'')"
    using assms(1) by (simp add: jwt_verify_other_secret)
  from assms(2) show ?thesis
  proof
    assume "authorization req = Some (jwt_sign i e k t)"
    then have "header_authorization req = Some (jwt_sign i e k t)"
      by (rule header_authorization_jwt_sign)
    from server_profile_try_token [OF this plain jwt_sign_not_Nil] rejected show ?thesis
      by (simp add: server_profile_def)
  next
    assume "authorization req = Some (''Bearer '' @ jwt_sign i e k t)"
    then have "header_authorization req = Some (''Bearer '' @ jwt_sign i e k t)"
      by (rule header_authorization_jwt_sign)
    from server_profile_try_token [OF this bearer_token jwt_sign_not_Nil] rejected show ?thesis
      by (simp add: server_profile_def)
  qed
qed

lemma getProfile_other_secret:
  assumes "keyBlock k \<noteq> keyBlock (JWT_SECRET processEnv)"
    and "authorization req = Some (jwt_sign i e k t)
         \<or> authorization req = Some (''Bearer '' @ jwt_sign i e k t)"
  shows "getProfile processEnv w ev req = failure 401 ''Invalid or expired token''"
proof -
  have plain: "replace ''Bearer '' [] (jwt_sign i e k t) = jwt_sign i e k t"
    by (intro replace_bearer_no_space jwt_sign_no_space)
  have rejected: "jwt_verify (jwt_sign i e k t) (JWT_SECRET processEnv) (now ev)
      = Inl (JsonWebTokenError ''invalid signature'')"
    using assms(1) by (simp add: jwt_verify_other_secret)
  from assms(2) show ?thesis
  proof
    assume "authorization req = Some (jwt_sign i e k t)"
    then have "header_authorization req = Some (jwt_sign i e k t)"
      by (rule header_authorization_jwt_sign)
    from getProfile_try_token [OF this plain jwt_sign_not_Nil] rejected show ?thesis
      by (simp add: getProfile_def)
  next
    assume "authorization req = Some (''Bearer '' @ jwt_sign i e k t)"
    then have "header_authorization req = Some (''Bearer '' @ jwt_sign i e k t)"
      by (rule header_authorization_jwt_sign)
    from getProfile_try_token [OF this bearer_token jwt_sign_not_Nil] rejected show ?thesis
      by (simp add: getProfile_def)
  qed
qed

lemma server_register_created:
  assumes "server_register w ev req = (r, w')" and "status r = 201"
  defines "e \<equiv> trim (toLowerCase (str (body_email req)))"
  defines "u \<equiv> new_User server_emailSetters w ev e (bcrypt_hash (salt ev) (str (body_password req)))"
  shows "r = auth_success 201 ''User registered successfully'' u
              (jwt_sign (oid u) (email u) server_JWT_SECRET (now ev))"
    and "w' = w\<lparr>users := users w @ [u]\<rparr>"
    and "readyState w = 1"
    and "find (\<lambda>v. email v = e) (users w) = None"
    and "email u = e" and "e \<noteq> []"
    and "body_email req = JSString (str (body_email req))"
    and "body_password req = JSString (str (body_password req))"
    and "6 \<le> length (str (body_password req))"
proof -
  have eu: "email u = e"
    by (simp add: u_def e_def new_User_def server_emailSetters_normalized)
  have setters: "server_emailSetters e = e"
    by (simp add: e_def server_emailSetters_normalized)
  obtain em where em: "body_email req = JSString em"
    using assms(1,2)
    by (cases "body_email req")
      (auto simp: server_register_def server_register_try_def Let_def toLowerCase_trim_def
        status_failure status_failure_with_error split: if_splits)
  obtain pw where pw: "body_password req = JSString pw"
    using assms(1,2) em
    by (cases "body_password req")
      (auto simp: server_register_def server_register_try_def Let_def toLowerCase_trim_def
        bcrypt_hash_js_def findOne_def
        status_failure status_failure_with_error split: if_splits option.splits)
  from assms(1,2) have
    "r = auth_success 201 ''User registered successfully'' u
              (jwt_sign (oid u) (email u) server_JWT_SECRET (now ev))
     \<and> w' = w\<lparr>users := users w @ [u]\<rparr> \<and> readyState w = 1
     \<and> find (\<lambda>v. email v = e) (users w) = None \<and> e \<noteq> []
     \<and> 6 \<le> length (str (body_password req))"
    unfolding server_register_def server_register_try_def Let_def em pw
      toLowerCase_trim_JSString bcrypt_hash_js_JSString
      e_def [unfolded em str.simps, symmetric] u_def [unfolded em pw str.simps, folded e_def [unfolded em str.simps]]
      findOne_def save_def insertOne_def setters [unfolded e_def em str.simps] eu
    by (auto simp: status_failure status_failure_with_error e_def em u_def pw new_User_def
        server_emailSetters_normalized
        split: if_splits sum.splits option.splits)
  with eu em pw show
    "r = auth_success 201 ''User registered successfully'' u
              (jwt_sign (oid u) (email u) server_JWT_SECRET (now ev))"
    "w' = w\<lparr>users := users w @ [u]\<rparr>" "readyState w = 1"
    "find (\<lambda>v. email v = e) (users w) = None" "email u = e" "e \<noteq> []"
    "body_email req = JSString (str (body_email req))"
    "body_password req = JSString (str (body_password req))"
    "6 \<le> length (str (body_password req))"
    by simp_all
qed

lemma server_register_existing:
  assumes "readyState w = 1" and "u \<in> set (users w)"
    and "toLowerCase_trim (body_email req) = Inr (email u)"
    and "\<not> falsy (body_email req)"
  shows "server_register w ev req =
           (if falsy (body_password req) then failure 400 ''Email and password are required''
            else if lengthBelow6 (body_password req)
            then failure 400 ''Password must be at least 6 characters''
            else failure 400 ''User already exists with this email'', w)"
proof -
  from assms(2)
  have "find (\<lambda>v. email v = email u) (users w) \<noteq> None"
    using find_mem [of u "users w" "\<lambda>v. email v = email u"] by simp
  then obtain x where found: "find (\<lambda>v. email v = email u) (users w) = Some x"
    by auto
  from assms(3) have "server_emailSetters (email u) = email u"
    by (auto simp: toLowerCase_trim_str server_emailSetters_normalized)
  with found assms(1,3,4) show ?thesis
    by (simp add: server_register_def server_register_try_def Let_def findOne_def)
qed

lemma register_existing:
  assumes "emailSetters um = server_emailSetters"
    and "readyState w = 1" and "u \<in> set (users w)"
    and "toLowerCase_trim (body_email req) = Inr (email u)"
    and "\<not> falsy (body_email req)"
  shows "register um processEnv w ev req =
           (if falsy (body_password req) then failure 400 ''Please provide email and password''
            else if lengthBelow6 (body_password req)
            then failure 400 ''Password must be at least 6 characters''
            else failure 400 ''User already exists with this email'', w)"
proof -
  from assms(3)
  have "find (\<lambda>v. email v = email u) (users w) \<noteq> None"
    using find_mem [of u "users w" "\<lambda>v. email v = email u"] by simp
  then obtain x where found: "find (\<lambda>v. email v = email u) (users w) = Some x"
    by auto
  from assms(4) obtain s where s: "body_email req = JSString s" "email u = trim (toLowerCase s)"
    by (auto simp: toLowerCase_trim_str)
  with found assms(1,2,5) show ?thesis
    by (simp add: register_def register_try_def Let_def findOne_value_def findOne_def
        server_emailSetters_def)
qed

lemma server_login_found:
  assumes "body_email req = JSString e" and "body_password req = JSString p"
    and "e \<noteq> []" and "p \<noteq> []"
    and "readyState w = 1"
    and "find (\<lambda>v. email v = trim (toLowerCase e)) (users w) = Some u"
    and "bcrypt_compare p (password u)"
  shows "server_login w ev req =
           auth_success 200 ''Login successful'' u
             (jwt_sign (oid u) (email u) server_JWT_SECRET (now ev))"
  using assms
  by (simp add: server_login_def server_login_try_def Let_def findOne_def
      toLowerCase_trim_JSString bcrypt_compare_js_JSString server_emailSetters_normalized)

lemma token_of_server_register:
  "token_of (fst (server_register w ev req)) = Some t \<Longrightarrow>
     \<exists>i e. t = jwt_sign i e server_JWT_SECRET (now ev)"
  by (fastforce simp: server_register_def server_register_try_def Let_def token_of_failure
      token_of_failure_with_error token_of_auth_success split: if_splits sum.splits option.splits)

lemma token_of_server_login:
  "token_of (server_login w ev req) = Some t \<Longrightarrow>
     readyState w = 1 \<and> (\<exists>i e. t = jwt_sign i e server_JWT_SECRET (now ev))"
  by (fastforce simp: server_login_def server_login_try_def Let_def token_of_failure findOne_def
      token_of_failure_with_error token_of_auth_success split: if_splits sum.splits option.splits)

lemma token_of_register:
  "token_of (fst (register um processEnv w ev req)) = Some t \<Longrightarrow>
     \<exists>i e. t = jwt_sign i e (JWT_SECRET processEnv) (now ev)"
  by (fastforce simp: register_def register_try_def Let_def token_of_failure generateToken_def
      token_of_failure_with_error token_of_auth_success split: if_splits sum.splits option.splits)

lemma token_of_login:
  "token_of (login um processEnv w ev req) = Some t \<Longrightarrow>
     readyState w = 1 \<and> (\<exists>i e. t = jwt_sign i e (JWT_SECRET processEnv) (now ev))"
  by (fastforce simp: login_def login_try_def Let_def token_of_failure generateToken_def findOne_def
      token_of_failure_with_error token_of_auth_success split: if_splits sum.splits option.splits)

lemma register_store_unavailable:
  assumes "readyState w \<noteq> 1" "body_email req = JSString e" "e \<noteq> []"
    "\<not> falsy (body_password req)" "\<not> lengthBelow6 (body_password req)"
  shows "server_register_try w ev req = Inl StoreUnavailable"
    and "register_try um processEnv w ev req = Inl StoreUnavailable"
  using assms
  by (simp_all add: server_register_try_def register_try_def Let_def store_unavailable
      toLowerCase_trim_JSString findOne_value_def)

lemma login_store_unavailable:
  assumes "readyState w \<noteq> 1" "body_email req = JSString e" "e \<noteq> []"
    "\<not> falsy (body_password req)"
  shows "server_login_try w ev req = Inl StoreUnavailable"
    and "login_try um processEnv w ev req = Inl StoreUnavailable"
  using assms
  by (simp_all add: server_login_try_def login_try_def Let_def store_unavailable
      toLowerCase_trim_JSString)

lemma profile_store_unavailable:
  assumes "readyState w \<noteq> 1"
  shows "server_profile_try w \<lparr>now = t, salt = s\<rparr>
           (with_authorization (Some (''Bearer '' @ jwt_sign i e server_JWT_SECRET t)))
         = Inl StoreUnavailable"
    and "getProfile_try processEnv w \<lparr>now = t, salt = s\<rparr>
           (with_authorization (Some (''Bearer '' @ jwt_sign i e (JWT_SECRET processEnv) t)))
         = Inl StoreUnavailable"
  using assms
  by (simp_all add: server_profile_try_token [OF header_authorization_jwt_sign(2) bearer_token jwt_sign_not_Nil]
      getProfile_try_token [OF header_authorization_jwt_sign(2) bearer_token jwt_sign_not_Nil]
      jwt_verify_sign sevenDays_def store_unavailable)

lemma app_keeps_users:
  "prefix (users w) (users (snd (app w ev req))) \<and> readyState (snd (app w ev req)) = readyState w"
  by (auto simp: app_def server_register_def server_register_try_def Let_def save_def insertOne_def
      split: option.splits endpoint.splits sum.splits if_splits)

lemma envelope_server_errorHandler: "envelope (server_errorHandler m)"
  by (simp add: envelope_def server_errorHandler_def json_response_def)

lemma envelope_server_register: "envelope (fst (server_register w ev req))"
  by (auto simp: server_register_def server_register_try_def Let_def envelope_failure
      envelope_failure_with_error envelope_auth_success split: sum.splits option.splits)

lemma envelope_server_login: "envelope (server_login w ev req)"
  by (auto simp: server_login_def server_login_try_def Let_def envelope_failure
      envelope_failure_with_error envelope_auth_success split: sum.splits option.splits)

lemma envelope_server_profile: "envelope (server_profile w ev req)"
  by (auto simp: server_profile_def server_profile_try_def Let_def envelope_failure
      envelope_profile_success split: sum.splits option.splits)

lemma envelope_register: "envelope (fst (register um processEnv w ev req))"
  by (auto simp: register_def register_try_def Let_def envelope_failure
      envelope_failure_with_error envelope_auth_success split: sum.splits option.splits)

lemma envelope_login: "envelope (login um processEnv w ev req)"
  by (auto simp: login_def login_try_def Let_def envelope_failure
      envelope_failure_with_error envelope_auth_success split: sum.splits option.splits)

lemma envelope_getProfile: "envelope (getProfile processEnv w ev req)"
  by (auto simp: getProfile_def getProfile_try_def Let_def envelope_failure
      envelope_profile_success split: sum.splits option.splits)

lemma server_register_sample:
  "server_register (connected []) (at_time 0) (credentials POST_register ''a@test.com'' ''secret1'')
     = (auth_success 201 ''User registered successfully''
          \<lparr>oid = 1, email = ''a@test.com'', password = bcrypt_hash ''salt'' ''secret1'',
           createdAt = 0\<rparr>
          (jwt_sign 1 ''a@test.com'' server_JWT_SECRET 0),
        connected [\<lparr>oid = 1, email = ''a@test.com'',
                    password = bcrypt_hash ''salt'' ''secret1'', createdAt = 0\<rparr>])"
  by (simp add: server_register_def server_register_try_def Let_def
      toLowerCase_trim_JSString bcrypt_hash_js_JSString
      normalize_sample findOne_def new_User_def newObjectId_def server_emailSetters_sample
      save_def insertOne_def bcrypt_hash_not_Nil)

lemma register_sample:
  "register sample_User_model processEnv
      (connected []) (at_time 0) (credentials POST_register ''a@test.com'' ''secret1'')
     = (auth_success 201 ''User registered successfully''
          \<lparr>oid = 1, email = ''a@test.com'', password = bcrypt_hash ''salt'' ''secret1'',
           createdAt = 0\<rparr>
          (jwt_sign 1 ''a@test.com'' (JWT_SECRET processEnv) 0),
        connected [\<lparr>oid = 1, email = ''a@test.com'',
                    password = bcrypt_hash ''salt'' ''secret1'', createdAt = 0\<rparr>])"
  by (simp add: register_def register_try_def Let_def generateToken_def
      toLowerCase_trim_JSString bcrypt_hash_js_JSString findOne_value_def
      normalize_sample findOne_def new_User_def newObjectId_def server_emailSetters_sample
      insertOne_def)

lemma server_login_sample:
  "server_login
     (connected [\<lparr>oid = 1, email = ''a@test.com'',
                 password = bcrypt_hash ''salt'' ''secret1'', createdAt = 0\<rparr>])
     (at_time 5000) (credentials POST_login ''a@test.com'' ''secret1'')
   = auth_success 200 ''Login successful''
       \<lparr>oid = 1, email = ''a@test.com'', password = bcrypt_hash ''salt'' ''secret1'',
        createdAt = 0\<rparr>
       (jwt_sign 1 ''a@test.com'' server_JWT_SECRET 5000)"
proof -
  let ?u = "\<lparr>oid = 1, email = ''a@test.com'', password = bcrypt_hash ''salt'' ''secret1'',
             createdAt = 0\<rparr>"
  let ?req = "credentials POST_login ''a@test.com'' ''secret1''"
  have "server_login (connected [?u]) (at_time 5000) ?req
      = auth_success 200 ''Login successful'' ?u
          (jwt_sign (oid ?u) (email ?u) server_JWT_SECRET (now (at_time 5000)))"
    by (rule server_login_found [where e = "''a@test.com''" and p = "''secret1''"])
      (simp_all add: normalize_sample bcrypt_compare_hash)
  then show ?thesis by simp
qed

lemma register_created_user:
  assumes "register um processEnv w ev req = (r, w')" and "status r = 201"
  shows "\<exists>u s. u \<in> set (users w') \<and> body_email req = JSString s
           \<and> email u = emailSetters um (trim (toLowerCase s)) \<and> email u \<noteq> []"
  using assms
  by (cases "body_email req")
    (auto simp: register_def register_try_def Let_def toLowerCase_trim_def insertOne_def
      new_User_def status_failure status_failure_with_error
      split: if_splits sum.splits option.splits)

lemma toLowerCase_trim_present:
  "toLowerCase_trim v = Inr e \<Longrightarrow> e \<noteq> [] \<Longrightarrow> \<not> falsy v"
  by (cases v) (auto simp: toLowerCase_trim_def trim_def toLowerCase_def)

lemma server_profile_bearer:
  assumes "header_authorization req = Some (''Bearer '' @ tok)" and "tok \<noteq> []"
  shows "server_profile w ev req =
           (case jwt_verify tok server_JWT_SECRET (now ev) of
              Inl err \<Rightarrow> failure 401 ''Invalid or expired token''
            | Inr decoded \<Rightarrow>
                (case findById w (claim_id decoded) of
                   Inl err \<Rightarrow> failure 401 ''Invalid or expired token''
                 | Inr None \<Rightarrow> failure 404 ''User not found''
                 | Inr (Some user) \<Rightarrow> profile_success user))"
  unfolding server_profile_def server_profile_try_token [OF assms(1) bearer_token assms(2)]
  by (simp split: sum.splits option.splits)

lemma getProfile_bearer:
  assumes "header_authorization req = Some (''Bearer '' @ tok)" and "tok \<noteq> []"
  shows "getProfile processEnv w ev req =
           (case jwt_verify tok (JWT_SECRET processEnv) (now ev) of
              Inl err \<Rightarrow> failure 401 ''Invalid or expired token''
            | Inr decoded \<Rightarrow>
                (case findById w (claim_id decoded) of
                   Inl err \<Rightarrow> failure 401 ''Invalid or expired token''
                 | Inr None \<Rightarrow> failure 404 ''User not found''
                 | Inr (Some user) \<Rightarrow> profile_success user))"
  unfolding getProfile_def getProfile_try_token [OF assms(1) bearer_token assms(2)]
  by (simp split: sum.splits option.splits)

lemma JWT_SECRET_cases:
  "JWT_SECRET processEnv =
     (case processEnv ''JWT_SECRET'' of
        None \<Rightarrow> ''splito-secret-key-12345''
      | Some s \<Rightarrow> if s = [] then ''splito-secret-key-12345'' else s)"
  by (simp add: JWT_SECRET_def js_def split: option.splits)

section \<open>C1: registering an email twice\<close>

text \<open>
  C1. After a register request has succeeded, a register request whose email
  normalizes (lower case, trimmed) to the same string, made while the store is
  connected and still holds the users it held after the first, is answered with 400
  and \<open>success: false\<close>, and creates no user; when its password passes validation
  the answer is \<open>User already exists with this email\<close>. This holds for the handler
  in server.js. It holds for the controller's register with a User model whose \<open>email\<close>
  path has the setters of the schema in server.js (\<open>lowercase\<close>, \<open>trim\<close>), the only
  User schema of the repository: the controller hands the email to the query as it was
  sent, and the setters normalize the filter.
\<close>

theorem duplicate_registration:
  assumes "toLowerCase_trim (body_email req2) = toLowerCase_trim (body_email req1)"
    and "set (users w1) \<subseteq> set (users w2)" and "readyState w2 = 1"
  shows "(server_register w ev1 req1 = (r1, w1) \<and> status r1 = 201 \<longrightarrow>
            status (fst (server_register w2 ev2 req2)) = 400
          \<and> field (body (fst (server_register w2 ev2 req2))) ''success'' = Some (JBool False)
          \<and> snd (server_register w2 ev2 req2) = w2
          \<and> (\<not> falsy (body_password req2) \<and> \<not> lengthBelow6 (body_password req2) \<longrightarrow>
               fst (server_register w2 ev2 req2)
                 = failure 400 ''User already exists with this email''))
       \<and> (emailSetters um = server_emailSetters
          \<and> register um processEnv w ev1 req1 = (r1, w1) \<and> status r1 = 201 \<longrightarrow>
            status (fst (register um processEnv w2 ev2 req2)) = 400
          \<and> field (body (fst (register um processEnv w2 ev2 req2))) ''success''
              = Some (JBool False)
          \<and> snd (register um processEnv w2 ev2 req2) = w2
          \<and> (\<not> falsy (body_password req2) \<and> \<not> lengthBelow6 (body_password req2) \<longrightarrow>
               fst (register um processEnv w2 ev2 req2)
                 = failure 400 ''User already exists with this email''))"
proof (intro conjI impI; (elim conjE)?)
  assume first: "server_register w ev1 req1 = (r1, w1)" "status r1 = 201"
  define u where "u = new_User server_emailSetters w ev1 (trim (toLowerCase (str (body_email req1))))
                        (bcrypt_hash (salt ev1) (str (body_password req1)))"
  note created = server_register_created [OF first, folded u_def]
  from created(2) assms(2) have mem: "u \<in> set (users w2)" by auto
  from created(5,7) have "toLowerCase_trim (body_email req1) = Inr (email u)"
    by (simp add: toLowerCase_trim_str)
  with assms(1) have em: "toLowerCase_trim (body_email req2) = Inr (email u)" by simp
  from created(5,6) have "email u \<noteq> []" by simp
  with em have present: "\<not> falsy (body_email req2)" by (rule toLowerCase_trim_present)
  note second = server_register_existing [OF assms(3) mem em present, of ev2]
  show "status (fst (server_register w2 ev2 req2)) = 400"
    unfolding second by (simp add: status_failure)
  show "field (body (fst (server_register w2 ev2 req2))) ''success'' = Some (JBool False)"
    unfolding second by (simp add: success_failure)
  show "snd (server_register w2 ev2 req2) = w2"
    unfolding second by simp
  show "fst (server_register w2 ev2 req2) = failure 400 ''User already exists with this email''"
    if "\<not> falsy (body_password req2)" "\<not> lengthBelow6 (body_password req2)"
    unfolding second using that by simp
next
  assume setters: "emailSetters um = server_emailSetters"
    and first: "register um processEnv w ev1 req1 = (r1, w1)" "status r1 = 201"
  from register_created_user [OF first] obtain u s where mem1: "u \<in> set (users w1)"
    and s: "body_email req1 = JSString s"
    and eu: "email u = emailSetters um (trim (toLowerCase s))" and ne: "email u \<noteq> []"
    by blast
  from mem1 assms(2) have mem: "u \<in> set (users w2)" by auto
  from eu setters have "email u = trim (toLowerCase s)"
    by (simp add: server_emailSetters_normalized)
  with s have "toLowerCase_trim (body_email req1) = Inr (email u)"
    by (simp add: toLowerCase_trim_JSString)
  with assms(1) have em: "toLowerCase_trim (body_email req2) = Inr (email u)" by simp
  from em ne have present: "\<not> falsy (body_email req2)" by (rule toLowerCase_trim_present)
  note second = register_existing [OF setters assms(3) mem em present, of processEnv ev2]
  show "status (fst (register um processEnv w2 ev2 req2)) = 400"
    unfolding second by (simp add: status_failure)
  show "field (body (fst (register um processEnv w2 ev2 req2))) ''success'' = Some (JBool False)"
    unfolding second by (simp add: success_failure)
  show "snd (register um processEnv w2 ev2 req2) = w2"
    unfolding second by simp
  show "fst (register um processEnv w2 ev2 req2) = failure 400 ''User already exists with this email''"
    if "\<not> falsy (body_password req2)" "\<not> lengthBelow6 (body_password req2)"
    unfolding second using that by simp
qed

theorem duplicate_registration_witness:
  "server_register (connected []) (at_time 0) (credentials POST_register ''a@test.com'' ''secret1'')
     = (auth_success 201 ''User registered successfully''
          \<lparr>oid = 1, email = ''a@test.com'', password = bcrypt_hash ''salt'' ''secret1'',
           createdAt = 0\<rparr>
          (jwt_sign 1 ''a@test.com'' server_JWT_SECRET 0),
        connected [\<lparr>oid = 1, email = ''a@test.com'',
                    password = bcrypt_hash ''salt'' ''secret1'', createdAt = 0\<rparr>])
   \<and> toLowerCase_trim (JSString ''A@Test.com '') = toLowerCase_trim (JSString ''a@test.com'')
   \<and> server_register
        (connected [\<lparr>oid = 1, email = ''a@test.com'',
                    password = bcrypt_hash ''salt'' ''secret1'', createdAt = 0\<rparr>])
        (at_time 5000) (credentials POST_register ''A@Test.com '' ''secret2'')
     = (failure 400 ''User already exists with this email'',
        connected [\<lparr>oid = 1, email = ''a@test.com'',
                    password = bcrypt_hash ''salt'' ''secret1'', createdAt = 0\<rparr>])
   \<and> register sample_User_model Map.empty
        (connected [\<lparr>oid = 1, email = ''a@test.com'',
                    password = bcrypt_hash ''salt'' ''secret1'', createdAt = 0\<rparr>])
        (at_time 5000) (credentials POST_register ''A@Test.com '' ''secret2'')
     = (failure 400 ''User already exists with this email'',
        connected [\<lparr>oid = 1, email = ''a@test.com'',
                    password = bcrypt_hash ''salt'' ''secret1'', createdAt = 0\<rparr>])"
proof -
  let ?u = "\<lparr>oid = 1, email = ''a@test.com'', password = bcrypt_hash ''salt'' ''secret1'',
             createdAt = 0\<rparr>"
  let ?r1 = "auth_success 201 ''User registered successfully'' ?u
               (jwt_sign 1 ''a@test.com'' server_JWT_SECRET 0)"
  let ?r1' = "auth_success 201 ''User registered successfully'' ?u
               (jwt_sign 1 ''a@test.com'' (JWT_SECRET Map.empty) 0)"
  let ?req1 = "credentials POST_register ''a@test.com'' ''secret1''"
  let ?req2 = "credentials POST_register ''A@Test.com '' ''secret2''"
  have first: "server_register (connected []) (at_time 0) ?req1 = (?r1, connected [?u])"
    by (rule server_register_sample)
  have first': "register sample_User_model Map.empty (connected []) (at_time 0) ?req1
      = (?r1', connected [?u])"
    by (rule register_sample)
  have created: "status ?r1 = 201" "status ?r1' = 201" by (simp_all add: status_auth_success)
  have norm: "toLowerCase_trim (JSString ''A@Test.com '') = toLowerCase_trim (JSString ''a@test.com'')"
    by (simp add: toLowerCase_trim_JSString normalize_sample normalize_sample_upper)
  then have same: "toLowerCase_trim (body_email ?req2) = toLowerCase_trim (body_email ?req1)"
    by simp
  have later: "set (users (connected [?u])) \<subseteq> set (users (connected [?u]))"
      "readyState (connected [?u]) = 1"
    by simp_all
  have valid: "\<not> falsy (body_password ?req2) \<and> \<not> lengthBelow6 (body_password ?req2)"
    by simp
  have setters: "emailSetters sample_User_model = server_emailSetters" by simp
  note a = duplicate_registration [OF same later, where w = "connected []" and ?ev1.0 = "at_time 0"
      and ?r1.0 = ?r1 and ?ev2.0 = "at_time 5000"]
  note b = duplicate_registration [OF same later, where w = "connected []" and ?ev1.0 = "at_time 0"
      and ?r1.0 = ?r1' and ?ev2.0 = "at_time 5000" and um = sample_User_model
      and processEnv = Map.empty]
  from a first created(1) valid
  have "fst (server_register (connected [?u]) (at_time 5000) ?req2)
          = failure 400 ''User already exists with this email''"
    and "snd (server_register (connected [?u]) (at_time 5000) ?req2) = connected [?u]"
    by blast+
  then have server: "server_register (connected [?u]) (at_time 5000) ?req2
      = (failure 400 ''User already exists with this email'', connected [?u])"
    by (simp add: prod_eq_iff)
  from b first' created(2) valid setters
  have "fst (register sample_User_model Map.empty (connected [?u]) (at_time 5000) ?req2)
          = failure 400 ''User already exists with this email''"
    and "snd (register sample_User_model Map.empty (connected [?u]) (at_time 5000) ?req2)
          = connected [?u]"
    by blast+
  then have ctrl: "register sample_User_model Map.empty (connected [?u]) (at_time 5000) ?req2
      = (failure 400 ''User already exists with this email'', connected [?u])"
    by (simp add: prod_eq_iff)
  from first norm server ctrl show ?thesis by simp
qed

section \<open>C2: exceptions\<close>

text \<open>
  C2 fails for profile. With a token that verifies and the store not connected, the
  lookup of the user raises, and the catch block of the profile handler answers 401
  \<open>Invalid or expired token\<close>, not 500; this is so in server.js and in the
  controller. Login, in the same state of the store, answers 500.
\<close>

theorem profile_store_failure:
  "server_profile_try
       (disconnected [\<lparr>oid = 1, email = ''a@test.com'',
                      password = bcrypt_hash ''salt'' ''secret1'', createdAt = 0\<rparr>])
       (at_time 0)
       (with_authorization (Some (''Bearer '' @ jwt_sign 1 ''a@test.com'' server_JWT_SECRET 0)))
     = Inl StoreUnavailable
   \<and> server_profile
       (disconnected [\<lparr>oid = 1, email = ''a@test.com'',
                      password = bcrypt_hash ''salt'' ''secret1'', createdAt = 0\<rparr>])
       (at_time 0)
       (with_authorization (Some (''Bearer '' @ jwt_sign 1 ''a@test.com'' server_JWT_SECRET 0)))
     = failure 401 ''Invalid or expired token''
   \<and> getProfile_try Map.empty
       (disconnected [\<lparr>oid = 1, email = ''a@test.com'',
                      password = bcrypt_hash ''salt'' ''secret1'', createdAt = 0\<rparr>])
       (at_time 0)
       (with_authorization (Some (''Bearer '' @ jwt_sign 1 ''a@test.com'' (JWT_SECRET Map.empty) 0)))
     = Inl StoreUnavailable
   \<and> getProfile Map.empty
       (disconnected [\<lparr>oid = 1, email = ''a@test.com'',
                      password = bcrypt_hash ''salt'' ''secret1'', createdAt = 0\<rparr>])
       (at_time 0)
       (with_authorization (Some (''Bearer '' @ jwt_sign 1 ''a@test.com'' (JWT_SECRET Map.empty) 0)))
     = failure 401 ''Invalid or expired token''
   \<and> server_login
       (disconnected [\<lparr>oid = 1, email = ''a@test.com'',
                      password = bcrypt_hash ''salt'' ''secret1'', createdAt = 0\<rparr>])
       (at_time 0) (credentials POST_login ''a@test.com'' ''secret1'')
     = failure_with_error 500 ''Server error during login'' StoreUnavailable"
proof -
  let ?w = "disconnected [\<lparr>oid = 1, email = ''a@test.com'',
                          password = bcrypt_hash ''salt'' ''secret1'', createdAt = 0\<rparr>]"
  have down: "readyState ?w \<noteq> 1" by simp
  note raised = profile_store_unavailable [OF down,
      where t = 0 and s = "''salt''" and i = 1 and e = "''a@test.com''"]
  have present: "body_email (credentials POST_login ''a@test.com'' ''secret1'') = JSString ''a@test.com''"
      "''a@test.com'' \<noteq> []"
      "\<not> falsy (body_password (credentials POST_login ''a@test.com'' ''secret1''))"
    by simp_all
  note login = login_store_unavailable(1) [OF down present, of "at_time 0"]
  show ?thesis
    unfolding server_profile_def getProfile_def server_login_def raised login by simp
qed

text \<open>
  What the catch blocks do. Register and login answer an exception raised while handling
  with 500, \<open>success: false\<close>, a message and the error's text. Profile answers every
  exception raised while handling, a token that does not verify and a failure of the
  store alike, with 401 and the message \<open>Invalid or expired token\<close>. When the store
  is not connected, register and login raise once the request has passed validation,
  and profile raises once the token has verified.
\<close>

lemma exceptions_to_responses:
  "(server_register_try w ev req = Inl e \<longrightarrow>
      server_register w ev req = (failure_with_error 500 ''Server error during registration'' e, w))
   \<and> (server_login_try w ev req = Inl e \<longrightarrow>
      server_login w ev req = failure_with_error 500 ''Server error during login'' e)
   \<and> (server_profile_try w ev req = Inl e \<longrightarrow>
      server_profile w ev req = failure 401 ''Invalid or expired token'')
   \<and> (register_try um processEnv w ev req = Inl e \<longrightarrow>
      register um processEnv w ev req = (failure_with_error 500 ''Error in registration'' e, w))
   \<and> (login_try um processEnv w ev req = Inl e \<longrightarrow>
      login um processEnv w ev req = failure_with_error 500 ''Error in login'' e)
   \<and> (getProfile_try processEnv w ev req = Inl e \<longrightarrow>
      getProfile processEnv w ev req = failure 401 ''Invalid or expired token'')
   \<and> (readyState w \<noteq> 1 \<and> body_email req = JSString a \<and> a \<noteq> []
        \<and> \<not> falsy (body_password req) \<longrightarrow>
      server_login_try w ev req = Inl StoreUnavailable
      \<and> login_try um processEnv w ev req = Inl StoreUnavailable
      \<and> (\<not> lengthBelow6 (body_password req) \<longrightarrow>
           server_register_try w ev req = Inl StoreUnavailable
           \<and> register_try um processEnv w ev req = Inl StoreUnavailable))
   \<and> (readyState w \<noteq> 1 \<and> authorization req = Some (''Bearer '' @ t) \<longrightarrow>
      (jwt_verify t server_JWT_SECRET (now ev) = Inr c \<longrightarrow>
         server_profile_try w ev req = Inl StoreUnavailable)
      \<and> (jwt_verify t (JWT_SECRET processEnv) (now ev) = Inr c \<longrightarrow>
         getProfile_try processEnv w ev req = Inl StoreUnavailable))"
proof -
  have catch:
    "(server_register_try w ev req = Inl e \<longrightarrow>
        server_register w ev req = (failure_with_error 500 ''Server error during registration'' e, w))
     \<and> (server_login_try w ev req = Inl e \<longrightarrow>
        server_login w ev req = failure_with_error 500 ''Server error during login'' e)
     \<and> (server_profile_try w ev req = Inl e \<longrightarrow>
        server_profile w ev req = failure 401 ''Invalid or expired token'')
     \<and> (register_try um processEnv w ev req = Inl e \<longrightarrow>
        register um processEnv w ev req = (failure_with_error 500 ''Error in registration'' e, w))
     \<and> (login_try um processEnv w ev req = Inl e \<longrightarrow>
        login um processEnv w ev req = failure_with_error 500 ''Error in login'' e)
     \<and> (getProfile_try processEnv w ev req = Inl e \<longrightarrow>
        getProfile processEnv w ev req = failure 401 ''Invalid or expired token'')"
    by (simp add: server_register_def server_login_def server_profile_def
        register_def login_def getProfile_def)
  have store:
    "readyState w \<noteq> 1 \<and> body_email req = JSString a \<and> a \<noteq> []
        \<and> \<not> falsy (body_password req) \<longrightarrow>
      server_login_try w ev req = Inl StoreUnavailable
      \<and> login_try um processEnv w ev req = Inl StoreUnavailable
      \<and> (\<not> lengthBelow6 (body_password req) \<longrightarrow>
           server_register_try w ev req = Inl StoreUnavailable
           \<and> register_try um processEnv w ev req = Inl StoreUnavailable)"
    using register_store_unavailable [of w req a] login_store_unavailable [of w req a]
    by blast
  have profile:
    "readyState w \<noteq> 1 \<and> authorization req = Some (''Bearer '' @ t) \<longrightarrow>
      (jwt_verify t server_JWT_SECRET (now ev) = Inr c \<longrightarrow>
         server_profile_try w ev req = Inl StoreUnavailable)
      \<and> (jwt_verify t (JWT_SECRET processEnv) (now ev) = Inr c \<longrightarrow>
         getProfile_try processEnv w ev req = Inl StoreUnavailable)"
    by (simp add: server_profile_valid_token getProfile_valid_token store_unavailable)
  from catch store profile show ?thesis by blast
qed

lemma exceptions_to_responses_sample:
  "server_register (disconnected []) (at_time 0) (credentials POST_register ''a@test.com'' ''secret1'')
     = (failure_with_error 500 ''Server error during registration'' StoreUnavailable, disconnected [])
   \<and> server_login (disconnected []) (at_time 0) (credentials POST_login ''a@test.com'' ''secret1'')
     = failure_with_error 500 ''Server error during login'' StoreUnavailable
   \<and> server_profile (disconnected []) (at_time 0)
       (with_authorization (Some (''Bearer '' @ jwt_sign 1 ''a@test.com'' server_JWT_SECRET 0)))
     = failure 401 ''Invalid or expired token''
   \<and> register sample_User_model Map.empty (disconnected []) (at_time 0)
       (credentials POST_register ''a@test.com'' ''secret1'')
     = (failure_with_error 500 ''Error in registration'' StoreUnavailable, disconnected [])
   \<and> login sample_User_model Map.empty (disconnected []) (at_time 0)
       (credentials POST_login ''a@test.com'' ''secret1'')
     = failure_with_error 500 ''Error in login'' StoreUnavailable
   \<and> getProfile Map.empty (disconnected []) (at_time 0)
       (with_authorization (Some (''Bearer '' @ jwt_sign 1 ''a@test.com'' (JWT_SECRET Map.empty) 0)))
     = failure 401 ''Invalid or expired token''"
proof -
  let ?um = "sample_User_model"
  let ?reg = "credentials POST_register ''a@test.com'' ''secret1''"
  let ?log = "credentials POST_login ''a@test.com'' ''secret1''"
  have down: "readyState (disconnected []) \<noteq> 1" by simp
  have reg: "body_email ?reg = JSString ''a@test.com''" "''a@test.com'' \<noteq> []"
      "\<not> falsy (body_password ?reg)" "\<not> lengthBelow6 (body_password ?reg)"
    by simp_all
  have log: "body_email ?log = JSString ''a@test.com''" "''a@test.com'' \<noteq> []"
      "\<not> falsy (body_password ?log)"
    by simp_all
  note raised =
    register_store_unavailable [OF down reg]
    login_store_unavailable [OF down log]
    profile_store_unavailable [OF down]
  show ?thesis
    using raised
      exceptions_to_responses [of "disconnected []" "at_time 0" ?reg StoreUnavailable ?um Map.empty
        "''a@test.com''"]
      exceptions_to_responses [of "disconnected []" "at_time 0" ?log StoreUnavailable ?um Map.empty
        "''a@test.com''"]
      exceptions_to_responses [of "disconnected []" "at_time 0"
        "with_authorization (Some (''Bearer '' @ jwt_sign 1 ''a@test.com'' server_JWT_SECRET 0))"
        StoreUnavailable ?um Map.empty]
      exceptions_to_responses [of "disconnected []" "at_time 0"
        "with_authorization (Some (''Bearer '' @ jwt_sign 1 ''a@test.com'' (JWT_SECRET Map.empty) 0))"
        StoreUnavailable ?um Map.empty]
    by simp
qed

section \<open>C3: the response envelope\<close>

text \<open>
  C3, as the code has it. Every response of register, login, profile, the 404 handler
  and the global error handler has a boolean field \<open>success\<close>, and a string field
  \<open>message\<close> when \<open>success\<close> is false; this holds for server.js and for the
  controller's handlers. The response of the health route has no field \<open>success\<close>
  (it has \<open>status\<close>, \<open>message\<close>, \<open>timestamp\<close>, \<open>database\<close> and \<open>endpoints\<close>).
\<close>

theorem response_envelope:
  assumes "bodyError req \<noteq> None \<or> endpoint req \<noteq> GET_health"
  shows "envelope (fst (app w ev req))
       \<and> envelope (fst (register um processEnv w ev req))
       \<and> envelope (login um processEnv w ev req)
       \<and> envelope (getProfile processEnv w ev req)
       \<and> field (body (server_health w ev)) ''success'' = None"
proof -
  have "envelope (fst (app w ev req))"
  proof (cases "bodyError req")
    case (Some m)
    then show ?thesis by (simp add: app_def envelope_server_errorHandler)
  next
    case None
    with assms have "endpoint req \<noteq> GET_health" by simp
    with None show ?thesis
      by (cases "endpoint req")
        (simp_all add: app_def envelope_server_register envelope_server_login
          envelope_server_profile server_notFound_def envelope_failure)
  qed
  moreover have "field (body (server_health w ev)) ''success'' = None"
    by (simp add: server_health_def json_response_def)
  ultimately show ?thesis
    by (simp add: envelope_register envelope_login envelope_getProfile)
qed

theorem response_envelope_witness:
  "endpoint \<lparr>endpoint = Unmatched, bodyError = None, authorization = None,
             body_email = JSUndefined, body_password = JSUndefined\<rparr> \<noteq> GET_health
   \<and> fst (app (connected []) (at_time 0)
            \<lparr>endpoint = Unmatched, bodyError = None, authorization = None,
             body_email = JSUndefined, body_password = JSUndefined\<rparr>) = failure 404 ''Route not found''
   \<and> envelope (fst (app (connected []) (at_time 0)
            \<lparr>endpoint = Unmatched, bodyError = None, authorization = None,
             body_email = JSUndefined, body_password = JSUndefined\<rparr>))"
proof -
  let ?req = "\<lparr>endpoint = Unmatched, bodyError = None, authorization = None,
               body_email = JSUndefined, body_password = JSUndefined\<rparr>"
  have h: "endpoint ?req \<noteq> GET_health" by simp
  then have "bodyError ?req \<noteq> None \<or> endpoint ?req \<noteq> GET_health" by blast
  from response_envelope [OF this, of "connected []" "at_time 0"] h show ?thesis
    by (simp add: app_def server_notFound_def)
qed

text \<open>
  C3 as stated fails for the health route: its response has no field \<open>success\<close>.
\<close>

theorem health_envelope_counterexample:
  "fst (app (connected []) (at_time 0)
         \<lparr>endpoint = GET_health, bodyError = None, authorization = None,
          body_email = JSUndefined, body_password = JSUndefined\<rparr>)
     = server_health (connected []) (at_time 0)
   \<and> field (body (server_health (connected []) (at_time 0))) ''success'' = None
   \<and> \<not> envelope (server_health (connected []) (at_time 0))"
  by (simp add: app_def server_health_def json_response_def envelope_def)

section \<open>C4: login failures\<close>

text \<open>
  C4 fails in server.js for a password that is not a string. The request
  \<open>{"email": "a@test.com", "password": 123456}\<close> has both fields present. When no
  user has the email, the answer is 401 \<open>Invalid email or password\<close>. When the user
  exists, \<open>bcrypt.compare\<close> rejects the number, the catch block answers 500
  \<open>Server error during login\<close> with the error \<open>Illegal arguments: number, string\<close>,
  and the two responses differ: the response tells whether the email is registered.
\<close>

theorem login_numeric_password:
  "\<not> falsy (JSString ''a@test.com'') \<and> \<not> falsy (JSNumber 123456)
   \<and> server_login (connected []) (at_time 5000)
        \<lparr>endpoint = POST_login, bodyError = None, authorization = None,
         body_email = JSString ''a@test.com'', body_password = JSNumber 123456\<rparr>
     = failure 401 ''Invalid email or password''
   \<and> server_login
        (connected [\<lparr>oid = 1, email = ''a@test.com'',
                    password = bcrypt_hash ''salt'' ''secret1'', createdAt = 0\<rparr>])
        (at_time 5000)
        \<lparr>endpoint = POST_login, bodyError = None, authorization = None,
         body_email = JSString ''a@test.com'', body_password = JSNumber 123456\<rparr>
     = failure_with_error 500 ''Server error during login''
         (IllegalArguments ''number, string'')
   \<and> message_of (IllegalArguments ''number, string'') = ''Illegal arguments: number, string''
   \<and> failure 401 ''Invalid email or password''
     \<noteq> failure_with_error 500 ''Server error during login''
         (IllegalArguments ''number, string'')"
proof -
  let ?u = "\<lparr>oid = 1, email = ''a@test.com'', password = bcrypt_hash ''salt'' ''secret1'',
             createdAt = 0\<rparr>"
  let ?req = "\<lparr>endpoint = POST_login, bodyError = None, authorization = None,
               body_email = JSString ''a@test.com'', body_password = JSNumber 123456\<rparr>"
  have unknown: "server_login (connected []) (at_time 5000) ?req
      = failure 401 ''Invalid email or password''"
    by (simp add: server_login_def server_login_try_def Let_def toLowerCase_trim_JSString
        findOne_def)
  have known: "server_login (connected [?u]) (at_time 5000) ?req
      = failure_with_error 500 ''Server error during login'' (IllegalArguments ''number, string'')"
    by (simp add: server_login_def server_login_try_def Let_def toLowerCase_trim_JSString
        findOne_def normalize_sample server_emailSetters_sample bcrypt_compare_js_def)
  have differ: "failure 401 ''Invalid email or password''
     \<noteq> failure_with_error 500 ''Server error during login'' (IllegalArguments ''number, string'')"
    by (simp add: failure_def failure_with_error_def json_response_def)
  from unknown known differ show ?thesis by simp
qed

text \<open>
  For string passwords the two failures are the same response, in server.js and in the
  controller whatever its User model: 401 with \<open>success: false\<close> and the message
  \<open>Invalid email or password\<close>.
\<close>

lemma login_failures_identical:
  assumes "e1 \<noteq> []" and "p1 \<noteq> []" and "e2 \<noteq> []" and "p2 \<noteq> []"
  shows "(findOne server_emailSetters w1 (trim (toLowerCase e1)) = Inr None
          \<and> findOne server_emailSetters w2 (trim (toLowerCase e2)) = Inr (Some u)
          \<and> \<not> bcrypt_compare p2 (password u)
          \<longrightarrow> server_login w1 ev1 (credentials POST_login e1 p1)
                = server_login w2 ev2 (credentials POST_login e2 p2)
              \<and> server_login w2 ev2 (credentials POST_login e2 p2)
                = failure 401 ''Invalid email or password'')
       \<and> (findOne (emailSetters um) w1 (trim (toLowerCase e1)) = Inr None
          \<and> findOne (emailSetters um) w2 (trim (toLowerCase e2)) = Inr (Some v)
          \<and> comparePassword um (JSString p2) (password v) = Inr False
          \<longrightarrow> login um processEnv w1 ev1 (credentials POST_login e1 p1)
                = login um processEnv w2 ev2 (credentials POST_login e2 p2)
              \<and> login um processEnv w2 ev2 (credentials POST_login e2 p2)
                = failure 401 ''Invalid email or password'')"
  using assms
  by (simp add: server_login_def server_login_try_def login_def login_try_def Let_def
      toLowerCase_trim_JSString bcrypt_compare_js_JSString)

lemma login_failures_identical_sample:
  "server_login (connected []) (at_time 0) (credentials POST_login ''a@test.com'' ''wrong-password'')
     = server_login
         (connected [\<lparr>oid = 1, email = ''a@test.com'',
                      password = bcrypt_hash ''salt'' ''secret1'', createdAt = 0\<rparr>])
         (at_time 0) (credentials POST_login ''a@test.com'' ''wrong-password'')
   \<and> status (server_login
         (connected [\<lparr>oid = 1, email = ''a@test.com'',
                      password = bcrypt_hash ''salt'' ''secret1'', createdAt = 0\<rparr>])
         (at_time 0) (credentials POST_login ''a@test.com'' ''wrong-password'')) = 401"
proof -
  let ?u = "\<lparr>oid = 1, email = ''a@test.com'', password = bcrypt_hash ''salt'' ''secret1'', createdAt = 0\<rparr>"
  have key: "server_emailSetters (trim (toLowerCase ''a@test.com'')) = ''a@test.com''"
    by (simp add: normalize_sample server_emailSetters_sample)
  have absent: "findOne server_emailSetters (connected []) (trim (toLowerCase ''a@test.com'')) = Inr None"
    by (simp add: findOne_def)
  have found: "findOne server_emailSetters (connected [?u]) (trim (toLowerCase ''a@test.com'')) = Inr (Some ?u)"
    unfolding findOne_def key by simp
  have wrong: "\<not> bcrypt_compare ''wrong-password'' (password ?u)"
    by (simp add: bcrypt_compare_hash_iff)
  have ne: "''a@test.com'' \<noteq> []" "''wrong-password'' \<noteq> []" by simp_all
  note inst = login_failures_identical [OF ne ne,
      where ?w1.0 = "connected []" and ?w2.0 = "connected [?u]" and u = ?u
        and ?ev1.0 = "at_time 0" and ?ev2.0 = "at_time 0"]
  from inst absent found wrong show ?thesis
    by (simp add: status_failure)
qed

section \<open>C5: lifetime of a token\<close>

text \<open>
  C5. A token issued by register or login at clock time \<open>T\<close> (in milliseconds, as
  \<open>Date.now()\<close>) carries \<open>iat = T div 1000\<close> and \<open>exp = iat + 7 days\<close>, in seconds;
  verification accepts it at \<open>T\<close> and at \<open>T\<close> + 6 days 23 hours, and rejects it as
  expired at \<open>T\<close> + 7 days 1 second. This holds for the tokens of server.js, verified
  with its secret, and for those of the controller's \<open>generateToken\<close>, verified with
  the controller's.
\<close>

theorem token_lifetime:
  "(token_of (fst (server_register w ev req)) = Some t \<or> token_of (server_login w ev req) = Some t
      \<longrightarrow> (\<exists>c. jwt_verify t server_JWT_SECRET (now ev) = Inr c
               \<and> iat c = now ev div 1000 \<and> exp c = iat c + 7 * 24 * 60 * 60
               \<and> jwt_verify t server_JWT_SECRET (now ev + 601200000) = Inr c
               \<and> jwt_verify t server_JWT_SECRET (now ev + 604801000) = Inl TokenExpiredError))
   \<and> (token_of (fst (register um processEnv w ev req)) = Some t'
       \<or> token_of (login um processEnv w ev req) = Some t'
      \<longrightarrow> (\<exists>c. jwt_verify t' (JWT_SECRET processEnv) (now ev) = Inr c
               \<and> iat c = now ev div 1000 \<and> exp c = iat c + 7 * 24 * 60 * 60
               \<and> jwt_verify t' (JWT_SECRET processEnv) (now ev + 601200000) = Inr c
               \<and> jwt_verify t' (JWT_SECRET processEnv) (now ev + 604801000)
                   = Inl TokenExpiredError))
   \<and> generateToken processEnv ev i e = jwt_sign i e (JWT_SECRET processEnv) (now ev)"
proof (intro conjI impI)
  assume "token_of (fst (server_register w ev req)) = Some t
          \<or> token_of (server_login w ev req) = Some t"
  then obtain i e where "t = jwt_sign i e server_JWT_SECRET (now ev)"
    by (auto dest: token_of_server_register token_of_server_login)
  with jwt_lifetime [of i e server_JWT_SECRET "now ev"]
  show "\<exists>c. jwt_verify t server_JWT_SECRET (now ev) = Inr c
           \<and> iat c = now ev div 1000 \<and> exp c = iat c + 7 * 24 * 60 * 60
           \<and> jwt_verify t server_JWT_SECRET (now ev + 601200000) = Inr c
           \<and> jwt_verify t server_JWT_SECRET (now ev + 604801000) = Inl TokenExpiredError"
    by simp
next
  assume "token_of (fst (register um processEnv w ev req)) = Some t'
          \<or> token_of (login um processEnv w ev req) = Some t'"
  then obtain i e where "t' = jwt_sign i e (JWT_SECRET processEnv) (now ev)"
    by (auto dest: token_of_register token_of_login)
  with jwt_lifetime [of i e "JWT_SECRET processEnv" "now ev"]
  show "\<exists>c. jwt_verify t' (JWT_SECRET processEnv) (now ev) = Inr c
           \<and> iat c = now ev div 1000 \<and> exp c = iat c + 7 * 24 * 60 * 60
           \<and> jwt_verify t' (JWT_SECRET processEnv) (now ev + 601200000) = Inr c
           \<and> jwt_verify t' (JWT_SECRET processEnv) (now ev + 604801000) = Inl TokenExpiredError"
    by simp
next
  show "generateToken processEnv ev i e = jwt_sign i e (JWT_SECRET processEnv) (now ev)"
    by (simp add: generateToken_def)
qed

theorem token_lifetime_witness:
  "token_of (server_login
       (connected [\<lparr>oid = 1, email = ''a@test.com'',
                   password = bcrypt_hash ''salt'' ''secret1'', createdAt = 0\<rparr>])
       (at_time 5000) (credentials POST_login ''a@test.com'' ''secret1''))
     = Some (jwt_sign 1 ''a@test.com'' server_JWT_SECRET 5000)
   \<and> jwt_verify (jwt_sign 1 ''a@test.com'' server_JWT_SECRET 5000) server_JWT_SECRET 5000
     = Inr \<lparr>claim_id = 1, claim_email = ''a@test.com'', iat = 5, exp = 604805\<rparr>
   \<and> jwt_verify (jwt_sign 1 ''a@test.com'' server_JWT_SECRET 5000) server_JWT_SECRET
       (5000 + 601200000)
     = Inr \<lparr>claim_id = 1, claim_email = ''a@test.com'', iat = 5, exp = 604805\<rparr>
   \<and> jwt_verify (jwt_sign 1 ''a@test.com'' server_JWT_SECRET 5000) server_JWT_SECRET
       (5000 + 604801000)
     = Inl TokenExpiredError
   \<and> jwt_verify (jwt_sign 1 ''a@test.com'' (JWT_SECRET Map.empty) 0) (JWT_SECRET Map.empty)
       (0 + 604801000)
     = Inl TokenExpiredError"
proof -
  let ?u = "\<lparr>oid = 1, email = ''a@test.com'', password = bcrypt_hash ''salt'' ''secret1'',
             createdAt = 0\<rparr>"
  let ?um = "sample_User_model"
  let ?t = "jwt_sign 1 ''a@test.com'' server_JWT_SECRET 5000"
  let ?t' = "jwt_sign 1 ''a@test.com'' (JWT_SECRET Map.empty) 0"
  let ?c = "\<lparr>claim_id = 1, claim_email = ''a@test.com'', iat = 5, exp = 604805\<rparr>"
  have l: "token_of (server_login (connected [?u]) (at_time 5000)
             (credentials POST_login ''a@test.com'' ''secret1'')) = Some ?t"
    unfolding server_login_sample by (simp add: token_of_auth_success)
  have r: "token_of (fst (register ?um Map.empty (connected []) (at_time 0)
             (credentials POST_register ''a@test.com'' ''secret1''))) = Some ?t'"
    unfolding register_sample by (simp add: token_of_auth_success)
  have at_issue: "jwt_verify ?t server_JWT_SECRET 5000 = Inr ?c"
    by (simp add: jwt_verify_sign sevenDays_def)
  from token_lifetime [where w = "connected [?u]" and ev = "at_time 5000"
      and req = "credentials POST_login ''a@test.com'' ''secret1''" and t = ?t] l
  obtain c where "jwt_verify ?t server_JWT_SECRET (now (at_time 5000)) = Inr c"
    and "jwt_verify ?t server_JWT_SECRET (now (at_time 5000) + 601200000) = Inr c"
    and "jwt_verify ?t server_JWT_SECRET (now (at_time 5000) + 604801000) = Inl TokenExpiredError"
    by blast
  with at_issue have server:
    "jwt_verify ?t server_JWT_SECRET (5000 + 601200000) = Inr ?c"
    "jwt_verify ?t server_JWT_SECRET (5000 + 604801000) = Inl TokenExpiredError"
    by simp_all
  from token_lifetime [where w = "connected []" and ev = "at_time 0" and um = ?um
      and processEnv = Map.empty
      and req = "credentials POST_register ''a@test.com'' ''secret1''" and t' = ?t'] r
  obtain c' where
    "jwt_verify ?t' (JWT_SECRET Map.empty) (now (at_time 0) + 604801000) = Inl TokenExpiredError"
    by blast
  then have ctrl: "jwt_verify ?t' (JWT_SECRET Map.empty) (0 + 604801000) = Inl TokenExpiredError"
    by simp
  from l at_issue server ctrl show ?thesis by blast
qed

section \<open>C6: login after registration\<close>



section \<open>C7: the signing secret\<close>

text \<open>
  C7, as the code has it. server.js reads no external configuration for the secret: it
  signs every token it issues with the built-in constant \<open>splito-jwt-secret-key-2024\<close>,
  and its profile handler verifies the token of the request under that constant. The
  controller's secret is the environment variable \<open>JWT_SECRET\<close> when it is set and not
  empty, and the built-in default \<open>splito-secret-key-12345\<close> when it is unset or empty;
  \<open>generateToken\<close> signs with it and \<open>getProfile\<close> verifies under it.
\<close>

theorem signing_secret:
  "(token_of (fst (server_register w ev req)) = Some t \<or> token_of (server_login w ev req) = Some t
      \<longrightarrow> (\<exists>i e. t = jwt_sign i e ''splito-jwt-secret-key-2024'' (now ev)))
   \<and> (header_authorization preq = Some (''Bearer '' @ tok) \<and> tok \<noteq> [] \<longrightarrow>
        server_profile w ev preq =
          (case jwt_verify tok ''splito-jwt-secret-key-2024'' (now ev) of
             Inl err \<Rightarrow> failure 401 ''Invalid or expired token''
           | Inr decoded \<Rightarrow>
               (case findById w (claim_id decoded) of
                  Inl err \<Rightarrow> failure 401 ''Invalid or expired token''
                | Inr None \<Rightarrow> failure 404 ''User not found''
                | Inr (Some user) \<Rightarrow> profile_success user)))
   \<and> JWT_SECRET processEnv =
        (case processEnv ''JWT_SECRET'' of
           None \<Rightarrow> ''splito-secret-key-12345''
         | Some s \<Rightarrow> if s = [] then ''splito-secret-key-12345'' else s)
   \<and> (token_of (fst (register um processEnv w ev req)) = Some t'
       \<or> token_of (login um processEnv w ev req) = Some t'
      \<longrightarrow> (\<exists>i e. t' = jwt_sign i e (JWT_SECRET processEnv) (now ev)))
   \<and> (header_authorization preq = Some (''Bearer '' @ tok) \<and> tok \<noteq> [] \<longrightarrow>
        getProfile processEnv w ev preq =
          (case jwt_verify tok (JWT_SECRET processEnv) (now ev) of
             Inl err \<Rightarrow> failure 401 ''Invalid or expired token''
           | Inr decoded \<Rightarrow>
               (case findById w (claim_id decoded) of
                  Inl err \<Rightarrow> failure 401 ''Invalid or expired token''
                | Inr None \<Rightarrow> failure 404 ''User not found''
                | Inr (Some user) \<Rightarrow> profile_success user)))"
proof (intro conjI)
  show "token_of (fst (server_register w ev req)) = Some t \<or> token_of (server_login w ev req) = Some t
      \<longrightarrow> (\<exists>i e. t = jwt_sign i e ''splito-jwt-secret-key-2024'' (now ev))"
    using token_of_server_register [of w ev req t] token_of_server_login [of w ev req t]
    unfolding server_JWT_SECRET_def by blast
  show "header_authorization preq = Some (''Bearer '' @ tok) \<and> tok \<noteq> [] \<longrightarrow>
        server_profile w ev preq =
          (case jwt_verify tok ''splito-jwt-secret-key-2024'' (now ev) of
             Inl err \<Rightarrow> failure 401 ''Invalid or expired token''
           | Inr decoded \<Rightarrow>
               (case findById w (claim_id decoded) of
                  Inl err \<Rightarrow> failure 401 ''Invalid or expired token''
                | Inr None \<Rightarrow> failure 404 ''User not found''
                | Inr (Some user) \<Rightarrow> profile_success user))"
    using server_profile_bearer [of preq tok w ev] unfolding server_JWT_SECRET_def by blast
  show "JWT_SECRET processEnv =
        (case processEnv ''JWT_SECRET'' of
           None \<Rightarrow> ''splito-secret-key-12345''
         | Some s \<Rightarrow> if s = [] then ''splito-secret-key-12345'' else s)"
    by (rule JWT_SECRET_cases)
  show "token_of (fst (register um processEnv w ev req)) = Some t'
       \<or> token_of (login um processEnv w ev req) = Some t'
      \<longrightarrow> (\<exists>i e. t' = jwt_sign i e (JWT_SECRET processEnv) (now ev))"
    using token_of_register [of um processEnv w ev req t'] token_of_login [of um processEnv w ev req t']
    by blast
  show "header_authorization preq = Some (''Bearer '' @ tok) \<and> tok \<noteq> [] \<longrightarrow>
        getProfile processEnv w ev preq =
          (case jwt_verify tok (JWT_SECRET processEnv) (now ev) of
             Inl err \<Rightarrow> failure 401 ''Invalid or expired token''
           | Inr decoded \<Rightarrow>
               (case findById w (claim_id decoded) of
                  Inl err \<Rightarrow> failure 401 ''Invalid or expired token''
                | Inr None \<Rightarrow> failure 404 ''User not found''
                | Inr (Some user) \<Rightarrow> profile_success user))"
    using getProfile_bearer [of preq tok processEnv w ev] by blast
qed

theorem signing_secret_witness:
  "token_of (fst (server_register (connected []) (at_time 0)
       (credentials POST_register ''a@test.com'' ''secret1'')))
     = Some (jwt_sign 1 ''a@test.com'' server_JWT_SECRET 0)
   \<and> (\<exists>i e. jwt_sign 1 ''a@test.com'' server_JWT_SECRET 0
             = jwt_sign i e ''splito-jwt-secret-key-2024'' 0)
   \<and> server_profile
        (connected [\<lparr>oid = 1, email = ''a@test.com'',
                    password = bcrypt_hash ''salt'' ''secret1'', createdAt = 0\<rparr>])
        (at_time 0)
        (with_authorization (Some (''Bearer '' @ jwt_sign 1 ''a@test.com'' ''configured'' 0)))
     = failure 401 ''Invalid or expired token''
   \<and> getProfile [''JWT_SECRET'' \<mapsto> ''configured'']
        (connected [\<lparr>oid = 1, email = ''a@test.com'',
                    password = bcrypt_hash ''salt'' ''secret1'', createdAt = 0\<rparr>])
        (at_time 0)
        (with_authorization (Some (''Bearer '' @ jwt_sign 1 ''a@test.com'' ''configured'' 0)))
     = profile_success \<lparr>oid = 1, email = ''a@test.com'',
                        password = bcrypt_hash ''salt'' ''secret1'', createdAt = 0\<rparr>
   \<and> getProfile Map.empty
        (connected [\<lparr>oid = 1, email = ''a@test.com'',
                    password = bcrypt_hash ''salt'' ''secret1'', createdAt = 0\<rparr>])
        (at_time 0)
        (with_authorization (Some (''Bearer '' @ jwt_sign 1 ''a@test.com'' ''configured'' 0)))
     = failure 401 ''Invalid or expired token''
   \<and> JWT_SECRET Map.empty = ''splito-secret-key-12345''
   \<and> JWT_SECRET [''JWT_SECRET'' \<mapsto> ''configured''] = ''configured''"
proof -
  let ?u = "\<lparr>oid = 1, email = ''a@test.com'', password = bcrypt_hash ''salt'' ''secret1'',
             createdAt = 0\<rparr>"
  let ?req = "credentials POST_register ''a@test.com'' ''secret1''"
  let ?set = "[''JWT_SECRET'' \<mapsto> ''configured'']"
  let ?tok = "jwt_sign 1 ''a@test.com'' ''configured'' 0"
  let ?preq = "with_authorization (Some (''Bearer '' @ ?tok))"
  let ?c = "\<lparr>claim_id = 1, claim_email = ''a@test.com'', iat = 0, exp = sevenDays\<rparr>"
  have s: "token_of (fst (server_register (connected []) (at_time 0) ?req))
      = Some (jwt_sign 1 ''a@test.com'' server_JWT_SECRET 0)"
    unfolding server_register_sample by (simp add: token_of_auth_success)
  have h: "header_authorization ?preq = Some (''Bearer '' @ ?tok) \<and> ?tok \<noteq> []"
    using header_authorization_jwt_sign(2) [of ?preq 1 "''a@test.com''" "''configured''" 0]
    by (simp add: jwt_sign_not_Nil)
  have other: "keyBlock ''configured'' \<noteq> keyBlock ''splito-jwt-secret-key-2024''"
      "keyBlock ''configured'' \<noteq> keyBlock ''splito-secret-key-12345''"
    by (simp_all add: keyBlock_def)
  have rejected: "jwt_verify ?tok ''splito-jwt-secret-key-2024'' (now (at_time 0))
      = Inl (JsonWebTokenError ''invalid signature'')"
    "jwt_verify ?tok ''splito-secret-key-12345'' (now (at_time 0))
      = Inl (JsonWebTokenError ''invalid signature'')"
    using other by (simp_all add: jwt_verify_other_secret)
  have accepted: "jwt_verify ?tok ''configured'' (now (at_time 0)) = Inr ?c"
    by (simp add: jwt_verify_sign sevenDays_def)
  have f: "findById (connected [?u]) (claim_id ?c) = Inr (Some ?u)"
    by (simp add: findById_def)
  note a = signing_secret [where w = "connected []" and ev = "at_time 0" and req = ?req
      and t = "jwt_sign 1 ''a@test.com'' server_JWT_SECRET 0"]
  note b = signing_secret [where w = "connected [?u]" and ev = "at_time 0" and preq = ?preq
      and tok = ?tok and processEnv = ?set]
  note c = signing_secret [where w = "connected [?u]" and ev = "at_time 0" and preq = ?preq
      and tok = ?tok and processEnv = Map.empty]
  from c have unset: "JWT_SECRET Map.empty = ''splito-secret-key-12345''" by simp
  from b have set: "JWT_SECRET ?set = ''configured''" by simp
  from a s have "\<exists>i e. jwt_sign 1 ''a@test.com'' server_JWT_SECRET 0
             = jwt_sign i e ''splito-jwt-secret-key-2024'' (now (at_time 0))"
    by blast
  moreover from b h have "server_profile (connected [?u]) (at_time 0) ?preq
      = (case jwt_verify ?tok ''splito-jwt-secret-key-2024'' (now (at_time 0)) of
             Inl err \<Rightarrow> failure 401 ''Invalid or expired token''
           | Inr decoded \<Rightarrow>
               (case findById (connected [?u]) (claim_id decoded) of
                  Inl err \<Rightarrow> failure 401 ''Invalid or expired token''
                | Inr None \<Rightarrow> failure 404 ''User not found''
                | Inr (Some user) \<Rightarrow> profile_success user))"
    by blast
  then have "server_profile (connected [?u]) (at_time 0) ?preq
      = failure 401 ''Invalid or expired token''"
    unfolding rejected by simp
  moreover from b h have "getProfile ?set (connected [?u]) (at_time 0) ?preq
      = (case jwt_verify ?tok (JWT_SECRET ?set) (now (at_time 0)) of
             Inl err \<Rightarrow> failure 401 ''Invalid or expired token''
           | Inr decoded \<Rightarrow>
               (case findById (connected [?u]) (claim_id decoded) of
                  Inl err \<Rightarrow> failure 401 ''Invalid or expired token''
                | Inr None \<Rightarrow> failure 404 ''User not found''
                | Inr (Some user) \<Rightarrow> profile_success user))"
    by blast
  then have "getProfile ?set (connected [?u]) (at_time 0) ?preq = profile_success ?u"
    unfolding set accepted using f by simp
  moreover from c h have "getProfile Map.empty (connected [?u]) (at_time 0) ?preq
      = (case jwt_verify ?tok (JWT_SECRET Map.empty) (now (at_time 0)) of
             Inl err \<Rightarrow> failure 401 ''Invalid or expired token''
           | Inr decoded \<Rightarrow>
               (case findById (connected [?u]) (claim_id decoded) of
                  Inl err \<Rightarrow> failure 401 ''Invalid or expired token''
                | Inr None \<Rightarrow> failure 404 ''User not found''
                | Inr (Some user) \<Rightarrow> profile_success user))"
    by blast
  then have "getProfile Map.empty (connected [?u]) (at_time 0) ?preq
      = failure 401 ''Invalid or expired token''"
    unfolding unset rejected by simp
  ultimately show ?thesis using s unset set by simp
qed

text \<open>
  C7 as stated fails: with no secret configured in the environment, both
  implementations issue tokens, signed with the constants written in the code.
\<close>

theorem hardcoded_secret_counterexample:
  "token_of (fst (server_register (connected []) (at_time 0)
       (credentials POST_register ''a@test.com'' ''secret1'')))
     = Some (jwt_sign 1 ''a@test.com'' ''splito-jwt-secret-key-2024'' 0)
   \<and> token_of (fst (register sample_User_model Map.empty
       (connected []) (at_time 0) (credentials POST_register ''a@test.com'' ''secret1'')))
     = Some (jwt_sign 1 ''a@test.com'' ''splito-secret-key-12345'' 0)"
  unfolding server_register_sample register_sample
  by (simp add: token_of_auth_success server_JWT_SECRET_def JWT_SECRET_def js_def)

text \<open>
  Verification under a secret does not single the secret out: the keyed digest pads a
  short key with zero bytes, so a token signed with the constant of server.js followed
  by a zero byte verifies under the constant.
\<close>

lemma zero_padded_secret_accepted:
  "server_JWT_SECRET @ [CHR 0x00] \<noteq> server_JWT_SECRET
   \<and> jwt_verify (jwt_sign 1 ''a@test.com'' (server_JWT_SECRET @ [CHR 0x00]) 0) server_JWT_SECRET 0
     = Inr \<lparr>claim_id = 1, claim_email = ''a@test.com'', iat = 0, exp = sevenDays\<rparr>"
proof -
  have "length server_JWT_SECRET < 64" by (simp add: server_JWT_SECRET_def)
  then have "keyBlock (server_JWT_SECRET @ [CHR 0x00]) = keyBlock server_JWT_SECRET"
    by (rule keyBlock_zero_padded)
  then have "hmac (server_JWT_SECRET @ [CHR 0x00]) m = hmac server_JWT_SECRET m" for m
    by (rule hmac_keyBlock)
  then have "jwt_sign 1 ''a@test.com'' (server_JWT_SECRET @ [CHR 0x00]) 0
      = jwt_sign 1 ''a@test.com'' server_JWT_SECRET 0"
    by (simp add: jwt_sign_def)
  then show ?thesis by (simp add: jwt_verify_sign sevenDays_def)
qed

section \<open>C8: validation of a registration\<close>


text \<open>
  What the validation of both handlers does, for every value the body can hold: when
  the email is falsy, the password is falsy, or the test \<open>password.length < 6\<close> holds,
  the answer is 400 with \<open>success: false\<close> and the collection is left as it was. A
  request that is not answered with 201 creates no user.
\<close>

lemma register_validation:
  assumes "falsy (body_email req) \<or> falsy (body_password req) \<or> lengthBelow6 (body_password req)"
  shows "status (fst (server_register w ev req)) = 400
       \<and> field (body (fst (server_register w ev req))) ''success'' = Some (JBool False)
       \<and> snd (server_register w ev req) = w
       \<and> status (fst (register um processEnv w ev req)) = 400
       \<and> field (body (fst (register um processEnv w ev req))) ''success'' = Some (JBool False)
       \<and> snd (register um processEnv w ev req) = w"
  using assms
  by (auto simp: server_register_def server_register_try_def register_def register_try_def
      Let_def status_failure success_failure)

lemma register_creates_on_success_only:
  "status (fst (server_register w ev req)) \<noteq> 201 \<Longrightarrow> snd (server_register w ev req) = w"
  "status (fst (register um processEnv w ev req)) \<noteq> 201 \<Longrightarrow> snd (register um processEnv w ev req) = w"
  by (auto simp: server_register_def server_register_try_def register_def register_try_def
      Let_def status_auth_success split: sum.splits option.splits if_splits)

section \<open>C9: the two implementations\<close>

text \<open>
  C9. With the environment variable \<open>JWT_SECRET\<close> unset, the controller signs with
  \<open>splito-secret-key-12345\<close> and server.js with \<open>splito-jwt-secret-key-2024\<close>. Every
  token issued by register or login of one implementation is rejected by the profile
  handler of the other with 401 \<open>Invalid or expired token\<close>. The two are not
  equivalent: for a token issued by the login of server.js, the two profile handlers
  answer the same request differently.
\<close>

theorem implementations_reject_each_other:
  assumes "processEnv ''JWT_SECRET'' = None"
  shows "JWT_SECRET processEnv = ''splito-secret-key-12345''
       \<and> server_JWT_SECRET = ''splito-jwt-secret-key-2024''
       \<and> (token_of (fst (server_register w ev req)) = Some t
           \<or> token_of (server_login w ev req) = Some t
          \<longrightarrow> getProfile processEnv w' ev' (req'\<lparr>authorization := Some (''Bearer '' @ t)\<rparr>)
                = failure 401 ''Invalid or expired token'')
       \<and> (token_of (fst (register um processEnv w ev req)) = Some t
           \<or> token_of (login um processEnv w ev req) = Some t
          \<longrightarrow> server_profile w' ev' (req'\<lparr>authorization := Some (''Bearer '' @ t)\<rparr>)
                = failure 401 ''Invalid or expired token'')
       \<and> (token_of (server_login w ev req) = Some t
          \<longrightarrow> server_profile w ev (req'\<lparr>authorization := Some (''Bearer '' @ t)\<rparr>)
                \<noteq> getProfile processEnv w ev (req'\<lparr>authorization := Some (''Bearer '' @ t)\<rparr>))"
proof -
  note differ = secret_keyBlocks_differ [of processEnv, OF assms]
  have from_server: "getProfile processEnv w' ev' (req'\<lparr>authorization := Some (''Bearer '' @ t)\<rparr>)
                = failure 401 ''Invalid or expired token''"
    if "token_of (fst (server_register w ev req)) = Some t
        \<or> token_of (server_login w ev req) = Some t" for w' ev'
  proof -
    from that obtain i e where "t = jwt_sign i e server_JWT_SECRET (now ev)"
      by (auto dest: token_of_server_register token_of_server_login)
    then show ?thesis
      using differ
      by (intro getProfile_other_secret [where k = server_JWT_SECRET and i = i and e = e
            and t = "now ev"])
        (simp_all add: not_sym)
  qed
  have from_ctrl: "server_profile w' ev' (req'\<lparr>authorization := Some (''Bearer '' @ t)\<rparr>)
                = failure 401 ''Invalid or expired token''"
    if "token_of (fst (register um processEnv w ev req)) = Some t
        \<or> token_of (login um processEnv w ev req) = Some t"
  proof -
    from that obtain i e where "t = jwt_sign i e (JWT_SECRET processEnv) (now ev)"
      by (auto dest: token_of_register token_of_login)
    then show ?thesis
      using differ
      by (intro server_profile_other_secret [where k = "JWT_SECRET processEnv" and i = i
            and e = e and t = "now ev"])
        simp_all
  qed
  have unequal: "server_profile w ev (req'\<lparr>authorization := Some (''Bearer '' @ t)\<rparr>)
                \<noteq> getProfile processEnv w ev (req'\<lparr>authorization := Some (''Bearer '' @ t)\<rparr>)"
    if tok: "token_of (server_login w ev req) = Some t"
  proof -
    from tok obtain i e where up: "readyState w = 1"
      and t: "t = jwt_sign i e server_JWT_SECRET (now ev)"
      by (auto dest: token_of_server_login)
    from jwt_verify_at_issue [of i e server_JWT_SECRET "now ev"] t
    obtain c where v: "jwt_verify t server_JWT_SECRET (now ev) = Inr c" by auto
    from server_profile_valid_token [OF v, of "req'\<lparr>authorization := Some (''Bearer '' @ t)\<rparr>" w] up
    have "server_profile w ev (req'\<lparr>authorization := Some (''Bearer '' @ t)\<rparr>)
            \<noteq> failure 401 ''Invalid or expired token''"
      by (auto simp: server_profile_def findById_def failure_eq_iff
          failure_neq_profile_success [symmetric] split: option.splits)
    with from_server [of w ev] tok show ?thesis by simp
  qed
  show ?thesis
  proof (intro conjI)
    show "JWT_SECRET processEnv = ''splito-secret-key-12345''"
      using assms by (rule JWT_SECRET_unset)
    show "server_JWT_SECRET = ''splito-jwt-secret-key-2024''"
      by (rule server_JWT_SECRET_def)
    show "token_of (fst (server_register w ev req)) = Some t
           \<or> token_of (server_login w ev req) = Some t
          \<longrightarrow> getProfile processEnv w' ev' (req'\<lparr>authorization := Some (''Bearer '' @ t)\<rparr>)
                = failure 401 ''Invalid or expired token''"
      using from_server by (rule impI)
    show "token_of (fst (register um processEnv w ev req)) = Some t
           \<or> token_of (login um processEnv w ev req) = Some t
          \<longrightarrow> server_profile w' ev' (req'\<lparr>authorization := Some (''Bearer '' @ t)\<rparr>)
                = failure 401 ''Invalid or expired token''"
      using from_ctrl by (rule impI)
    show "token_of (server_login w ev req) = Some t
          \<longrightarrow> server_profile w ev (req'\<lparr>authorization := Some (''Bearer '' @ t)\<rparr>)
                \<noteq> getProfile processEnv w ev (req'\<lparr>authorization := Some (''Bearer '' @ t)\<rparr>)"
      using unequal by (rule impI)
  qed
qed

theorem implementations_reject_each_other_witness:
  "(Map.empty :: string \<rightharpoonup> string) ''JWT_SECRET'' = None
   \<and> getProfile Map.empty
        (connected [\<lparr>oid = 1, email = ''a@test.com'',
                    password = bcrypt_hash ''salt'' ''secret1'', createdAt = 0\<rparr>])
        (at_time 0)
        (with_authorization (Some (''Bearer '' @ jwt_sign 1 ''a@test.com'' server_JWT_SECRET 0)))
     = failure 401 ''Invalid or expired token''
   \<and> server_profile
        (connected [\<lparr>oid = 1, email = ''a@test.com'',
                    password = bcrypt_hash ''salt'' ''secret1'', createdAt = 0\<rparr>])
        (at_time 0)
        (with_authorization
           (Some (''Bearer '' @ jwt_sign 1 ''a@test.com'' (JWT_SECRET Map.empty) 0)))
     = failure 401 ''Invalid or expired token''
   \<and> server_profile
        (connected [\<lparr>oid = 1, email = ''a@test.com'',
                    password = bcrypt_hash ''salt'' ''secret1'', createdAt = 0\<rparr>])
        (at_time 5000)
        (with_authorization (Some (''Bearer '' @ jwt_sign 1 ''a@test.com'' server_JWT_SECRET 5000)))
     \<noteq> getProfile Map.empty
        (connected [\<lparr>oid = 1, email = ''a@test.com'',
                    password = bcrypt_hash ''salt'' ''secret1'', createdAt = 0\<rparr>])
        (at_time 5000)
        (with_authorization (Some (''Bearer '' @ jwt_sign 1 ''a@test.com'' server_JWT_SECRET 5000)))"
proof -
  let ?u = "\<lparr>oid = 1, email = ''a@test.com'', password = bcrypt_hash ''salt'' ''secret1'',
             createdAt = 0\<rparr>"
  let ?um = "sample_User_model"
  let ?reg = "credentials POST_register ''a@test.com'' ''secret1''"
  let ?log = "credentials POST_login ''a@test.com'' ''secret1''"
  have unset: "(Map.empty :: string \<rightharpoonup> string) ''JWT_SECRET'' = None" by simp
  have upd: "(with_authorization None)\<lparr>authorization := Some x\<rparr> = with_authorization (Some x)" for x
    by simp
  have s: "token_of (fst (server_register (connected []) (at_time 0) ?reg))
      = Some (jwt_sign 1 ''a@test.com'' server_JWT_SECRET 0)"
    unfolding server_register_sample by (simp add: token_of_auth_success)
  have c: "token_of (fst (register ?um Map.empty (connected []) (at_time 0) ?reg))
      = Some (jwt_sign 1 ''a@test.com'' (JWT_SECRET Map.empty) 0)"
    unfolding register_sample by (simp add: token_of_auth_success)
  have l: "token_of (server_login (connected [?u]) (at_time 5000) ?log)
      = Some (jwt_sign 1 ''a@test.com'' server_JWT_SECRET 5000)"
    unfolding server_login_sample by (simp add: token_of_auth_success)
  note a = implementations_reject_each_other [of Map.empty, OF unset,
      where w = "connected []" and ev = "at_time 0" and req = ?reg and w' = "connected [?u]"
        and ev' = "at_time 0" and req' = "with_authorization None" and um = ?um, unfolded upd]
  note b = implementations_reject_each_other [of Map.empty, OF unset,
      where w = "connected [?u]" and ev = "at_time 5000" and req = ?log
        and req' = "with_authorization None", unfolded upd]
  from a s have "getProfile Map.empty (connected [?u]) (at_time 0)
        (with_authorization (Some (''Bearer '' @ jwt_sign 1 ''a@test.com'' server_JWT_SECRET 0)))
     = failure 401 ''Invalid or expired token''"
    by blast
  moreover from a c have "server_profile (connected [?u]) (at_time 0)
        (with_authorization
           (Some (''Bearer '' @ jwt_sign 1 ''a@test.com'' (JWT_SECRET Map.empty) 0)))
     = failure 401 ''Invalid or expired token''"
    by blast
  moreover from b l have "server_profile (connected [?u]) (at_time 5000)
        (with_authorization (Some (''Bearer '' @ jwt_sign 1 ''a@test.com'' server_JWT_SECRET 5000)))
     \<noteq> getProfile Map.empty (connected [?u]) (at_time 5000)
        (with_authorization (Some (''Bearer '' @ jwt_sign 1 ''a@test.com'' server_JWT_SECRET 5000)))"
    by blast
  ultimately show ?thesis by simp
qed

section \<open>C10: the Authorization header\<close>

text \<open>
  C10. Token extraction removes the first occurrence of \<open>Bearer \<close> from the value of
  the Authorization header. For every token \<open>t\<close> that verifies, the header \<open>t\<close> alone
  gets the same response as the header \<open>Bearer t\<close>, and that response is the 200
  profile of the token's user when the store has that user. The 401 no-token response
  is given exactly when the header is absent or its value is empty: the value reaches
  the handlers without the blanks around it, so it is never \<open>Bearer \<close> alone, the one
  other value that would leave an empty token. This holds for the handler in server.js
  and for the controller's.
\<close>

theorem bearer_scheme_optional:
  "(jwt_verify t server_JWT_SECRET (now ev) = Inr c \<longrightarrow>
      server_profile w ev (req\<lparr>authorization := Some t\<rparr>)
        = server_profile w ev (req\<lparr>authorization := Some (''Bearer '' @ t)\<rparr>)
      \<and> (findById w (claim_id c) = Inr (Some u) \<longrightarrow>
           server_profile w ev (req\<lparr>authorization := Some t\<rparr>) = profile_success u))
   \<and> (jwt_verify t' (JWT_SECRET processEnv) (now ev) = Inr c' \<longrightarrow>
      getProfile processEnv w ev (req\<lparr>authorization := Some t'\<rparr>)
        = getProfile processEnv w ev (req\<lparr>authorization := Some (''Bearer '' @ t')\<rparr>)
      \<and> (findById w (claim_id c') = Inr (Some u') \<longrightarrow>
           getProfile processEnv w ev (req\<lparr>authorization := Some t'\<rparr>) = profile_success u'))
   \<and> (server_profile w ev req = failure 401 ''No token provided''
        \<longleftrightarrow> header_authorization req = None \<or> header_authorization req = Some [])
   \<and> (getProfile processEnv w ev req = failure 401 ''Access denied. No token provided.''
        \<longleftrightarrow> header_authorization req = None \<or> header_authorization req = Some [])
   \<and> header_authorization req \<noteq> Some ''Bearer ''
   \<and> replace ''Bearer '' [] (''Bearer '' @ s) = s"
proof -
  have "server_profile w ev (req\<lparr>authorization := Some t\<rparr>)
          = server_profile w ev (req\<lparr>authorization := Some (''Bearer '' @ t)\<rparr>)
        \<and> (findById w (claim_id c) = Inr (Some u) \<longrightarrow>
             server_profile w ev (req\<lparr>authorization := Some t\<rparr>) = profile_success u)"
    if v: "jwt_verify t server_JWT_SECRET (now ev) = Inr c"
    using server_profile_valid_token [OF v, of "req\<lparr>authorization := Some t\<rparr>" w]
      server_profile_valid_token [OF v, of "req\<lparr>authorization := Some (''Bearer '' @ t)\<rparr>" w]
    by (simp add: server_profile_def)
  moreover have "getProfile processEnv w ev (req\<lparr>authorization := Some t'\<rparr>)
          = getProfile processEnv w ev (req\<lparr>authorization := Some (''Bearer '' @ t')\<rparr>)
        \<and> (findById w (claim_id c') = Inr (Some u') \<longrightarrow>
             getProfile processEnv w ev (req\<lparr>authorization := Some t'\<rparr>) = profile_success u')"
    if v: "jwt_verify t' (JWT_SECRET processEnv) (now ev) = Inr c'"
    using getProfile_valid_token [OF v, of "req\<lparr>authorization := Some t'\<rparr>" w]
      getProfile_valid_token [OF v, of "req\<lparr>authorization := Some (''Bearer '' @ t')\<rparr>" w]
    by (simp add: getProfile_def)
  moreover have "header_authorization req \<noteq> Some ''Bearer ''"
    using headerValue_not_bearer by (auto simp: header_authorization_def)
  moreover have "replace ''Bearer '' [] (''Bearer '' @ s) = s"
    by (rule bearer_token)
  ultimately show ?thesis
    using server_profile_no_token_iff [of w ev req] getProfile_no_token_iff [of processEnv w ev req]
    by blast
qed

theorem bearer_scheme_optional_witness:
  "server_profile (connected [\<lparr>oid = 1, email = ''a@test.com'', password = ''h'', createdAt = 0\<rparr>])
       (at_time 0) (with_authorization (Some (jwt_sign 1 ''a@test.com'' server_JWT_SECRET 0)))
     = profile_success \<lparr>oid = 1, email = ''a@test.com'', password = ''h'', createdAt = 0\<rparr>
   \<and> server_profile (connected [\<lparr>oid = 1, email = ''a@test.com'', password = ''h'', createdAt = 0\<rparr>])
       (at_time 0)
       (with_authorization (Some (''Bearer '' @ jwt_sign 1 ''a@test.com'' server_JWT_SECRET 0)))
     = profile_success \<lparr>oid = 1, email = ''a@test.com'', password = ''h'', createdAt = 0\<rparr>
   \<and> getProfile Map.empty
       (connected [\<lparr>oid = 1, email = ''a@test.com'', password = ''h'', createdAt = 0\<rparr>])
       (at_time 0) (with_authorization (Some (jwt_sign 1 ''a@test.com'' (JWT_SECRET Map.empty) 0)))
     = profile_success \<lparr>oid = 1, email = ''a@test.com'', password = ''h'', createdAt = 0\<rparr>
   \<and> getProfile Map.empty
       (connected [\<lparr>oid = 1, email = ''a@test.com'', password = ''h'', createdAt = 0\<rparr>])
       (at_time 0)
       (with_authorization (Some (''Bearer '' @ jwt_sign 1 ''a@test.com'' (JWT_SECRET Map.empty) 0)))
     = profile_success \<lparr>oid = 1, email = ''a@test.com'', password = ''h'', createdAt = 0\<rparr>
   \<and> server_profile (connected []) (at_time 0) (with_authorization None)
     = failure 401 ''No token provided''
   \<and> getProfile Map.empty (connected []) (at_time 0) (with_authorization (Some ''  ''))
     = failure 401 ''Access denied. No token provided.''
   \<and> header_authorization (with_authorization (Some ''Bearer '')) = Some ''Bearer''
   \<and> server_profile (connected []) (at_time 0) (with_authorization (Some ''Bearer ''))
     \<noteq> failure 401 ''No token provided''"
proof -
  let ?u = "\<lparr>oid = 1, email = ''a@test.com'', password = ''h'', createdAt = 0\<rparr>"
  let ?c = "\<lparr>claim_id = 1, claim_email = ''a@test.com'', iat = 0, exp = sevenDays\<rparr>"
  let ?t = "jwt_sign 1 ''a@test.com'' server_JWT_SECRET 0"
  let ?t' = "jwt_sign 1 ''a@test.com'' (JWT_SECRET Map.empty) 0"
  have v: "jwt_verify ?t server_JWT_SECRET (now (at_time 0)) = Inr ?c"
    by (simp add: jwt_verify_sign sevenDays_def)
  have v': "jwt_verify ?t' (JWT_SECRET Map.empty) (now (at_time 0)) = Inr ?c"
    by (simp add: jwt_verify_sign sevenDays_def)
  have f: "findById (connected [?u]) (claim_id ?c) = Inr (Some ?u)"
    by (simp add: findById_def)
  note inst = bearer_scheme_optional [where t = ?t and t' = ?t' and c = ?c and c' = ?c
      and u = ?u and u' = ?u and ev = "at_time 0" and processEnv = Map.empty]
  have upd: "(with_authorization None)\<lparr>authorization := Some x\<rparr> = with_authorization (Some x)" for x
    by simp
  have blanks: "header_authorization (with_authorization (Some ''  '')) = Some []"
    by (simp add: header_authorization_def headerValue_def isBlank_def)
  have stripped: "header_authorization (with_authorization (Some ''Bearer '')) = Some ''Bearer''"
    by (simp add: header_authorization_def headerValue_def isBlank_def)
  note a = inst [where w = "connected [?u]" and req = "with_authorization None", unfolded upd]
  note b = inst [where w = "connected []" and req = "with_authorization None"]
  note c = inst [where w = "connected []" and req = "with_authorization (Some ''  '')"]
  note d = inst [where w = "connected []" and req = "with_authorization (Some ''Bearer '')"]
  from a v f have
    "server_profile (connected [?u]) (at_time 0) (with_authorization (Some ?t)) = profile_success ?u"
    by blast
  moreover from a v have
    "server_profile (connected [?u]) (at_time 0) (with_authorization (Some ?t))
       = server_profile (connected [?u]) (at_time 0) (with_authorization (Some (''Bearer '' @ ?t)))"
    by blast
  moreover from a v' f have
    "getProfile Map.empty (connected [?u]) (at_time 0) (with_authorization (Some ?t'))
       = profile_success ?u"
    by blast
  moreover from a v' have
    "getProfile Map.empty (connected [?u]) (at_time 0) (with_authorization (Some ?t'))
       = getProfile Map.empty (connected [?u]) (at_time 0)
           (with_authorization (Some (''Bearer '' @ ?t')))"
    by blast
  moreover from b have "server_profile (connected []) (at_time 0) (with_authorization None)
      = failure 401 ''No token provided''"
    by (simp add: header_authorization_def)
  moreover from c blanks
  have "getProfile Map.empty (connected []) (at_time 0) (with_authorization (Some ''  ''))
      = failure 401 ''Access denied. No token provided.''"
    by blast
  moreover from d stripped
  have "server_profile (connected []) (at_time 0) (with_authorization (Some ''Bearer ''))
     \<noteq> failure 401 ''No token provided''"
    by simp
  ultimately show ?thesis using stripped by simp
qed

end
